theory Spec2Isabelle
  imports Complex_Main
begin

section \<open>Tensors, floats and outcomes\<close>

text \<open>
  The program (\<^verbatim>\<open>fin.py\<close>) computes on torch tensors of floats. A one-dimensional
  tensor is a list of reals, a two-dimensional one a list of rows. A finite float is its real
  value: rounding and overflow are not modelled, except where a section says that it follows
  the rounding. What exact arithmetic cannot follow is made
  explicit instead of being left to HOL's total functions: an operation whose float result is
  NaN or an infinity (a division by zero, the square root of a negative number) ends the
  modelled computation with \<open>NonFinite\<close>, and an exception the Python raises ends it with
  \<open>Raise\<close>. \<open>NonFinite\<close> is not an exception: the Python goes on with the NaN.

  \<open>InsufficientDataError\<close> and \<open>InfeasibleConstraintError\<close> are the error kinds the
  specification names; they are listed so that statements about them can be written.
\<close>

type_synonym vec = "real list"
type_synonym matrix = "real list list"

datatype exc =
    IndexError
  | RuntimeError
  | ZeroDivisionError
  | InsufficientDataError
  | InfeasibleConstraintError

datatype 'a outcome = Raise exc | NonFinite | Ok 'a

definition and_then :: "'a outcome \<Rightarrow> ('a \<Rightarrow> 'b outcome) \<Rightarrow> 'b outcome" where
  "and_then m f = (case m of Raise e \<Rightarrow> Raise e | NonFinite \<Rightarrow> NonFinite | Ok x \<Rightarrow> f x)"

text \<open>A \<^verbatim>\<open>for\<close> loop over a list of indices, stopping at the first exception or NaN.\<close>

fun for_each :: "('i \<Rightarrow> 's \<Rightarrow> 's outcome) \<Rightarrow> 'i list \<Rightarrow> 's \<Rightarrow> 's outcome" where
  "for_each body [] s = Ok s"
| "for_each body (i # is) s = and_then (body i s) (for_each body is)"

text \<open>
  An elementwise binary operation on two one-dimensional tensors, with torch's broadcasting:
  equal sizes pair up, a tensor of size 1 is stretched, any other pair of sizes raises.
\<close>

definition elementwise :: "(real \<Rightarrow> real \<Rightarrow> real) \<Rightarrow> vec \<Rightarrow> vec \<Rightarrow> vec outcome" where
  "elementwise f a b =
     (if length a = length b then Ok (map2 f a b)
      else if length a = 1 then Ok (map (f (hd a)) b)
      else if length b = 1 then Ok (map (\<lambda>x. f x (hd b)) a)
      else Raise RuntimeError)"

text \<open>\<^verbatim>\<open>torch.max\<close> of a one-dimensional tensor; it raises on an empty one.\<close>

definition tensor_max :: "vec \<Rightarrow> real outcome" where
  "tensor_max xs = (case xs of [] \<Rightarrow> Raise RuntimeError | x # ys \<Rightarrow> Ok (fold max ys x))"

definition tensor_min :: "vec \<Rightarrow> real outcome" where
  "tensor_min xs = (case xs of [] \<Rightarrow> Raise RuntimeError | x # ys \<Rightarrow> Ok (fold min ys x))"

section \<open>Enumerations\<close>

datatype RebalanceFrequency = DAILY | WEEKLY | MONTHLY | QUARTERLY | ANNUALLY | THRESHOLD

datatype TransactionCostModel = PROPORTIONAL | FIXED_PLUS_PROPORTIONAL | MARKET_IMPACT | NONE

section \<open>PortfolioBacktester: transaction costs and the rebalance policy\<close>

text \<open>
  \<^verbatim>\<open>compute_transaction_costs\<close>. The trade amounts are computed before the cost model is
  looked at, so mismatched shapes raise under every model. Under \<open>MARKET_IMPACT\<close> the square
  root of a negative trade amount (a negative portfolio value) is NaN, and so is the cost,
  whatever the coefficient.
\<close>

definition compute_transaction_costs ::
  "vec \<Rightarrow> vec \<Rightarrow> real \<Rightarrow> TransactionCostModel \<Rightarrow> real \<Rightarrow> real \<Rightarrow> real \<Rightarrow> real outcome" where
  "compute_transaction_costs old_weights new_weights portfolio_value cost_model cost_rate
       fixed_cost market_impact_coef =
     and_then (elementwise (\<lambda>x y. x - y) new_weights old_weights) (\<lambda>delta.
       let trade_amounts = map (\<lambda>d. \<bar>d\<bar> * portfolio_value) delta in
       (case cost_model of
          NONE \<Rightarrow> Ok 0
        | PROPORTIONAL \<Rightarrow> Ok (sum_list trade_amounts * cost_rate)
        | FIXED_PLUS_PROPORTIONAL \<Rightarrow>
            (let n_trades = length (filter (\<lambda>d. \<bar>d\<bar> > 1 / 1000000) delta);
                 proportional = sum_list trade_amounts * cost_rate;
                 fixed = real n_trades * fixed_cost
             in Ok (proportional + fixed))
        | MARKET_IMPACT \<Rightarrow>
            (if list_ex (\<lambda>a. a < 0) trade_amounts then NonFinite
             else
               (let proportional = sum_list trade_amounts * cost_rate;
                    market_impact = market_impact_coef * sum_list (map sqrt trade_amounts)
                in Ok (proportional + market_impact)))))"

text \<open>
  \<^verbatim>\<open>should_rebalance\<close>. The indices are Python integers. Under \<open>THRESHOLD\<close> the largest
  absolute difference of the two weight tensors is compared with the threshold.
\<close>

definition should_rebalance ::
  "vec \<Rightarrow> vec \<Rightarrow> RebalanceFrequency \<Rightarrow> int \<Rightarrow> int \<Rightarrow> real \<Rightarrow> bool outcome" where
  "should_rebalance current_weights target_weights rebalance_freq current_idx
       last_rebalance_idx threshold =
     (case rebalance_freq of
        DAILY \<Rightarrow> Ok True
      | WEEKLY \<Rightarrow> Ok (current_idx - last_rebalance_idx \<ge> 5)
      | MONTHLY \<Rightarrow> Ok (current_idx - last_rebalance_idx \<ge> 21)
      | QUARTERLY \<Rightarrow> Ok (current_idx - last_rebalance_idx \<ge> 63)
      | ANNUALLY \<Rightarrow> Ok (current_idx - last_rebalance_idx \<ge> 252)
      | THRESHOLD \<Rightarrow>
          and_then (elementwise (\<lambda>c t. c - t) current_weights target_weights) (\<lambda>d.
          and_then (tensor_max (map abs d)) (\<lambda>weight_drift.
            Ok (weight_drift > threshold))))"

section \<open>The proportional cost in floating point\<close>

text \<open>
  The one place where the rounding of the floats is followed: the \<open>PROPORTIONAL\<close> branch of
  \<^verbatim>\<open>compute_transaction_costs\<close>, operation by operation. A binary float with \<open>p\<close>
  significant bits (24 for a float32 tensor, 53 for a float64 tensor and for a Python float)
  is the real it holds; \<open>fl_round p\<close> rounds a real to the nearest such float, ties to the
  even significand, as IEEE 754 does. The exponent range is not bounded: overflow, underflow
  and subnormal numbers are left out.
\<close>

definition pow2 :: "int \<Rightarrow> real" where
  "pow2 e = (if 0 \<le> e then 2 ^ nat e else 1 / 2 ^ nat (- e))"

definition round_to_even :: "real \<Rightarrow> int" where
  "round_to_even r =
     (let f = \<lfloor>r\<rfloor>; d = r - of_int f
      in if d < 1 / 2 then f else if 1 / 2 < d then f + 1 else if even f then f else f + 1)"

definition fl_round :: "nat \<Rightarrow> real \<Rightarrow> real" where
  "fl_round p x =
     (if x = 0 then 0
      else
        (let e = \<lfloor>log 2 \<bar>x\<bar>\<rfloor>;
             ulp = pow2 (e - int p + 1)
         in of_int (round_to_even (x / ulp)) * ulp))"

text \<open>
  \<^verbatim>\<open>trade_amounts = torch.abs(new_weights - old_weights) * portfolio_value\<close> and
  \<^verbatim>\<open>torch.sum(trade_amounts).item() * cost_rate\<close> on two tensors of the same size whose
  entries are floats of \<open>p\<close> bits. The subtraction, the product with the scalar (a Python
  float, converted to the tensor's type) and the additions of the sum are rounded to \<open>p\<close>
  bits; \<^verbatim>\<open>.item()\<close> is exact; the last product is one of Python floats. The sum is taken
  from the left; for two entries it is the one rounded addition, for more entries the order
  is torch's own.
\<close>

definition float_proportional_cost :: "nat \<Rightarrow> vec \<Rightarrow> vec \<Rightarrow> real \<Rightarrow> real \<Rightarrow> real" where
  "float_proportional_cost p old_weights new_weights portfolio_value cost_rate =
     (let delta = map2 (\<lambda>x y. fl_round p (x - y)) new_weights old_weights;
          trade_amounts = map (\<lambda>d. fl_round p (\<bar>d\<bar> * fl_round p portfolio_value)) delta;
          total = fold (\<lambda>a s. fl_round p (s + a)) trade_amounts 0
      in fl_round 53 (total * cost_rate))"

section \<open>Statistics of a return window\<close>

text \<open>
  The three lines every optimiser class starts with:
  \<^verbatim>\<open>mean_returns = X.mean(dim=0); centered = X - mean_returns; cov = (centered.T @ centered) / (T - 1)\<close>
  for a window \<open>X\<close> of shape \<open>(T, n)\<close> (every row of \<open>X\<close> has \<open>n\<close> entries). Nothing here
  raises. With \<open>T = 0\<close> the mean is \<open>0/0\<close>, and the centred window is empty, so the
  covariance is the zero matrix divided by \<open>-1\<close>; with \<open>T = 1\<close> the covariance is \<open>0/0\<close>.
  With \<open>n = 0\<close> both tensors are empty.
\<close>

definition column :: "nat \<Rightarrow> matrix \<Rightarrow> vec" where
  "column j X = map (\<lambda>row. row ! j) X"

definition column_mean :: "nat \<Rightarrow> matrix \<Rightarrow> vec outcome" where
  "column_mean n X =
     (if n = 0 then Ok []
      else if X = [] then NonFinite
      else Ok (map (\<lambda>j. sum_list (column j X) / real (length X)) [0..<n]))"

definition sample_cov :: "nat \<Rightarrow> matrix \<Rightarrow> matrix outcome" where
  "sample_cov n X =
     (if n = 0 then Ok []
      else if X = [] then Ok (replicate n (replicate n 0))
      else if length X = 1 then NonFinite
      else
        (let m = map (\<lambda>j. sum_list (column j X) / real (length X)) [0..<n] in
         Ok (map (\<lambda>i. map (\<lambda>j.
               sum_list (map (\<lambda>row. (row ! i - m ! i) * (row ! j - m ! j)) X)
                 / (real (length X) - 1)) [0..<n]) [0..<n])))"

section \<open>Objectives and the projection\<close>

text \<open>
  \<^verbatim>\<open>a @ b\<close> on two one-dimensional tensors, \<^verbatim>\<open>w @ M\<close> and \<^verbatim>\<open>M @ w\<close> for a square
  matrix, and \<^verbatim>\<open>w @ M @ w\<close>, which raises unless the sizes agree.
\<close>

definition dot :: "vec \<Rightarrow> vec \<Rightarrow> real" where
  "dot a b = sum_list (map2 (\<lambda>x y. x * y) a b)"

definition vec_mat :: "vec \<Rightarrow> matrix \<Rightarrow> vec" where
  "vec_mat w M = map (\<lambda>j. dot w (column j M)) [0..<length w]"

definition mat_vec :: "matrix \<Rightarrow> vec \<Rightarrow> vec" where
  "mat_vec M w = map (\<lambda>row. dot row w) M"

definition dot_checked :: "vec \<Rightarrow> vec \<Rightarrow> real outcome" where
  "dot_checked a b = (if length a = length b then Ok (dot a b) else Raise RuntimeError)"

definition quad_form :: "vec \<Rightarrow> matrix \<Rightarrow> real outcome" where
  "quad_form w M =
     (if length M = length w then Ok (dot (vec_mat w M) w) else Raise RuntimeError)"

text \<open>
  The projection every closure applies in place before the loss, and every routine once more
  before it returns: \<^verbatim>\<open>weights.clamp_(min=bounds[0], max=bounds[1]); weights.div_(weights.sum())\<close>.
  A zero sum makes the weights NaN or infinite.
\<close>

definition project :: "real \<times> real \<Rightarrow> vec \<Rightarrow> vec outcome" where
  "project bounds w =
     (let clamped = map (\<lambda>x. min (max x (fst bounds)) (snd bounds)) w;
          total = sum_list clamped
      in if clamped = [] then Ok []
         else if total = 0 then NonFinite
         else Ok (map (\<lambda>x. x / total) clamped))"

text \<open>The losses of \<^verbatim>\<open>PortfolioBacktester._optimize_weights\<close>, at projected weights.\<close>

definition minimum_variance_loss :: "matrix outcome \<Rightarrow> vec \<Rightarrow> real outcome" where
  "minimum_variance_loss cov w = and_then cov (\<lambda>C. quad_form w C)"

definition maximum_sharpe_loss :: "vec outcome \<Rightarrow> matrix outcome \<Rightarrow> vec \<Rightarrow> real outcome" where
  "maximum_sharpe_loss mean_returns cov w =
     and_then mean_returns (\<lambda>mu.
     and_then cov (\<lambda>C.
     and_then (dot_checked w mu) (\<lambda>excess_return.
     and_then (quad_form w C) (\<lambda>var.
       if var + 1 / 100000000 \<le> 0 then NonFinite
       else
         (let portfolio_vol = sqrt (var + 1 / 100000000);
              sharpe = excess_return / portfolio_vol
          in Ok (- sharpe))))))"

definition risk_parity_loss :: "nat \<Rightarrow> matrix outcome \<Rightarrow> vec \<Rightarrow> real outcome" where
  "risk_parity_loss n cov w =
     and_then cov (\<lambda>C.
     and_then (quad_form w C) (\<lambda>portfolio_var.
       if portfolio_var + 1 / 100000000 < 0 then NonFinite
       else
         (let portfolio_vol = sqrt (portfolio_var + 1 / 100000000);
              marginal = map (\<lambda>x. x / (portfolio_vol + 1 / 100000000)) (mat_vec C w);
              risk_contrib = map2 (\<lambda>x y. x * y) w marginal
          in Ok (sum_list (map (\<lambda>rc. (rc - portfolio_vol / real n)\<^sup>2) risk_contrib)))))"

section \<open>The torch optimisers\<close>

text \<open>
  \<^verbatim>\<open>torch.optim.LBFGS\<close> and \<^verbatim>\<open>torch.optim.Adam\<close> are library code. They are parameters
  of the model: a fresh optimiser state, and one call of \<^verbatim>\<open>optimizer.step\<close> as a function
  of the optimiser state and the weights. An LBFGS step is given the closure as its two
  parts, the in-place projection and the loss at the projected weights, which it may call
  and differentiate as it likes; an Adam step is given the loss whose gradient
  \<^verbatim>\<open>loss.backward()\<close> has stored. The LBFGS with the strong Wolfe line search also reports
  the losses its closure calls computed, in order, since the closure of
  \<^verbatim>\<open>optimize_minimum_variance_torch\<close> counts them.
\<close>

record 's torch_optim =
  lbfgs_new :: "'s"
  lbfgs_step :: "(vec \<Rightarrow> vec outcome) \<Rightarrow> (vec \<Rightarrow> real outcome) \<Rightarrow> 's \<times> vec \<Rightarrow> ('s \<times> vec) outcome"
  adam_new :: "'s"
  adam_step :: "(vec \<Rightarrow> real outcome) \<Rightarrow> 's \<times> vec \<Rightarrow> ('s \<times> vec) outcome"
  wolfe_new :: "'s"
  wolfe_step :: "(vec \<Rightarrow> vec outcome) \<Rightarrow> (vec \<Rightarrow> real outcome) \<Rightarrow> 's \<times> vec
                   \<Rightarrow> ('s \<times> vec \<times> real list) outcome"

text \<open>\<^verbatim>\<open>for _ in range(50): optimizer.step(closure)\<close>, then the weights.\<close>

definition lbfgs_descent ::
  "'s torch_optim \<Rightarrow> real \<times> real \<Rightarrow> (vec \<Rightarrow> real outcome) \<Rightarrow> vec \<Rightarrow> vec outcome" where
  "lbfgs_descent tor bounds loss w0 =
     and_then (for_each (\<lambda>_. lbfgs_step tor (project bounds) loss) [0..<50] (lbfgs_new tor, w0))
       (\<lambda>(s, w). Ok w)"

text \<open>
  \<^verbatim>\<open>PortfolioBacktester._optimize_weights\<close> on a window with \<open>n\<close> columns. The statistics are
  computed first and cannot raise; \<^verbatim>\<open>1.0 / N\<close> is a Python division. There is no check of
  the window's length or of the bounds. A method name other than the three selects the
  starting weights.
\<close>

definition optimize_weights ::
  "'s torch_optim \<Rightarrow> nat \<Rightarrow> matrix \<Rightarrow> string \<Rightarrow> real \<times> real \<Rightarrow> vec outcome" where
  "optimize_weights tor n historical_returns method bounds =
     (let mean_returns = column_mean n historical_returns;
          cov = sample_cov n historical_returns
      in if n = 0 then Raise ZeroDivisionError
         else
           (let weights = replicate n (1 / real n) in
            and_then
              (if method = ''minimum_variance'' then
                 lbfgs_descent tor bounds (minimum_variance_loss cov) weights
               else if method = ''maximum_sharpe'' then
                 and_then
                   (for_each (\<lambda>_ (s, w). and_then (project bounds w) (\<lambda>p.
                        adam_step tor (maximum_sharpe_loss mean_returns cov) (s, p)))
                      [0..<200] (adam_new tor, weights))
                   (\<lambda>(s, w). Ok w)
               else if method = ''risk_parity'' then
                 lbfgs_descent tor bounds (risk_parity_loss n cov) weights
               else Ok weights)
              (project bounds)))"

section \<open>PortfolioBacktester: performance metrics\<close>

text \<open>\<^verbatim>\<open>torch.cummax(values, dim=0)[0]\<close>: the running maximum.\<close>

primrec running_max :: "real \<Rightarrow> vec \<Rightarrow> vec" where
  "running_max m [] = []"
| "running_max m (x # xs) = max m x # running_max (max m x) xs"

definition cummax :: "vec \<Rightarrow> vec" where
  "cummax values = (case values of [] \<Rightarrow> [] | x # xs \<Rightarrow> x # running_max x xs)"

text \<open>
  The three lines of the maximum drawdown:
  \<^verbatim>\<open>cummax = torch.cummax(portfolio_values, dim=0)[0]\<close>,
  \<^verbatim>\<open>drawdown = (portfolio_values - cummax) / cummax\<close>,
  \<^verbatim>\<open>max_drawdown = torch.min(drawdown).item()\<close>.
  Where the running maximum is zero some value equals it, the drawdown there is \<open>0/0\<close>, and
  the minimum of a tensor that holds a NaN is NaN.
\<close>

definition max_drawdown_of :: "vec \<Rightarrow> real outcome" where
  "max_drawdown_of portfolio_values =
     (let cm = cummax portfolio_values;
          drawdown = map2 (\<lambda>v m. (v - m) / m) portfolio_values cm
      in if portfolio_values = [] then Raise RuntimeError
         else if list_ex (\<lambda>m. m = 0) cm then NonFinite
         else tensor_min drawdown)"

text \<open>
  The drawdown as the specification words it: the least, over the periods \<open>t\<close>, of
  \<open>(V\<^sub>t - M\<^sub>t) / M\<^sub>t\<close>, where \<open>M\<^sub>t\<close> is the greatest value up to and including \<open>t\<close>.
\<close>

definition spec_running_max :: "vec \<Rightarrow> nat \<Rightarrow> real" where
  "spec_running_max V t = Max (set (take (Suc t) V))"

definition spec_max_drawdown :: "vec \<Rightarrow> real" where
  "spec_max_drawdown V =
     Min ((\<lambda>t. (V ! t - spec_running_max V t) / spec_running_max V t) ` {..<length V})"

text \<open>
  \<^verbatim>\<open>_compute_performance_metrics\<close>. A field that can be NaN or infinite is an option.
  The annualised return and volatility and the Sharpe, Sortino and Calmar ratios are left
  out: they are floating-point powers and square roots of the quantities below, no other
  field reads them, and they raise nothing once \<^verbatim>\<open>n_years = self.T / 252.0\<close> is not
  zero (\<^verbatim>\<open>1 / n_years\<close> is a Python division). The last line divides two Python floats,
  which raises when the non-positive returns sum to zero.
\<close>

record metrics =
  total_return :: "real option"
  max_drawdown :: "real option"
  win_rate :: "real option"
  avg_win :: real
  avg_loss :: real
  profit_factor :: real

definition compute_performance_metrics ::
  "real \<Rightarrow> nat \<Rightarrow> vec \<Rightarrow> vec \<Rightarrow> vec \<Rightarrow> metrics outcome" where
  "compute_performance_metrics initial_capital T portfolio_values portfolio_returns
       transaction_costs =
     (if portfolio_values = [] then Raise IndexError
      else if T = 0 then Raise ZeroDivisionError
      else
        (let wins = filter (\<lambda>r. r > 0) portfolio_returns;
             losses = filter (\<lambda>r. \<not> r > 0) portfolio_returns;
             total_wins = (if length wins > 0 then sum_list wins else 0);
             total_losses = (if length losses > 0 then \<bar>sum_list losses\<bar> else 1 / 10000000000)
         in if total_losses = 0 then Raise ZeroDivisionError
            else Ok \<lparr>
              total_return =
                (if initial_capital = 0 then None
                 else Some ((last portfolio_values - initial_capital) / initial_capital)),
              max_drawdown =
                (case max_drawdown_of portfolio_values of Ok d \<Rightarrow> Some d | _ \<Rightarrow> None),
              win_rate =
                (if portfolio_returns = [] then None
                 else Some (real (length wins) / real (length portfolio_returns))),
              avg_win = (if length wins > 0 then sum_list wins / real (length wins) else 0),
              avg_loss = (if length losses > 0 then sum_list losses / real (length losses) else 0),
              profit_factor = total_wins / total_losses \<rparr>))"

section \<open>PortfolioBacktester: the walk-forward loop\<close>

text \<open>
  The backtester object: the return tensor of shape \<open>(T, N)\<close> with \<open>T\<close> its number of rows,
  the period labels, the starting capital. \<^verbatim>\<open>min_history\<close> and \<^verbatim>\<open>lookback_window\<close> are
  natural numbers here (a negative one would index the tensors from the end).
\<close>

record 'd backtester =
  bt_returns :: matrix
  bt_N :: nat
  bt_dates :: "'d list"
  bt_initial_capital :: real

text \<open>The tensors \<^verbatim>\<open>run_backtest\<close> fills, and the variables of its loop.\<close>

record 'd tracking =
  portfolio_values :: vec
  portfolio_returns :: vec
  weights_history :: matrix
  rebalance_dates :: "'d list"
  transaction_costs :: vec
  turnover :: vec

record 'd loop_state = "'d tracking" +
  current_weights :: vec
  portfolio_value :: real
  last_rebalance_idx :: nat

text \<open>The result: the tracked tensors, the labels, and the metrics dictionary.\<close>

record 'd BacktestResult = "'d tracking" +
  dates :: "'d list"
  summary :: metrics

text \<open>\<^verbatim>\<open>xs[t]\<close> on a Python list, for \<open>t \<ge> 0\<close>.\<close>

definition list_index :: "'a list \<Rightarrow> nat \<Rightarrow> 'a outcome" where
  "list_index xs t = (if t < length xs then Ok (xs ! t) else Raise IndexError)"

text \<open>
  \<^verbatim>\<open>M[t] = v\<close> for a row \<open>t\<close> that exists in a tensor with \<open>n\<close> columns: the value is
  broadcast to the row's shape, or the assignment raises.
\<close>

definition assign_row :: "nat \<Rightarrow> matrix \<Rightarrow> nat \<Rightarrow> vec \<Rightarrow> matrix outcome" where
  "assign_row n M t v =
     (if length v = n then Ok (M[t := v])
      else if length v = 1 then Ok (M[t := replicate n (hd v)])
      else Raise RuntimeError)"

text \<open>
  The body of \<^verbatim>\<open>if self.should_rebalance(...)\<close>: optimise on the window, charge the cost
  (the call passes neither \<^verbatim>\<open>fixed_cost\<close> nor \<^verbatim>\<open>market_impact_coef\<close>, which keep their
  default \<open>0.0\<close>), record the turnover, replace the weights.
\<close>

definition rebalance ::
  "'d backtester \<Rightarrow> 's torch_optim \<Rightarrow> string \<Rightarrow> real \<times> real \<Rightarrow> TransactionCostModel \<Rightarrow> real
     \<Rightarrow> nat \<Rightarrow> matrix \<Rightarrow> 'd loop_state \<Rightarrow> 'd loop_state outcome" where
  "rebalance b tor optimization_method bounds cost_model cost_rate t historical_returns s =
     and_then (optimize_weights tor (bt_N b) historical_returns optimization_method bounds)
       (\<lambda>target_weights.
     and_then (compute_transaction_costs (current_weights s) target_weights (portfolio_value s)
                 cost_model cost_rate 0 0) (\<lambda>tc.
     and_then (elementwise (\<lambda>x y. x - y) target_weights (current_weights s)) (\<lambda>d.
     and_then (list_index (bt_dates b) t) (\<lambda>date.
       Ok (s\<lparr> turnover := (turnover s)[t := sum_list (map abs d)],
               portfolio_value := portfolio_value s - tc,
               transaction_costs := (transaction_costs s)[t := tc],
               current_weights := target_weights,
               last_rebalance_idx := t,
               rebalance_dates := rebalance_dates s @ [date] \<rparr>)))))"

text \<open>The rest of the loop body: the period's return, the new value, the drifted weights.\<close>

definition realize_and_drift :: "'d backtester \<Rightarrow> nat \<Rightarrow> 'd loop_state \<Rightarrow> 'd loop_state outcome" where
  "realize_and_drift b t s =
     and_then (elementwise (\<lambda>x y. x * y) (current_weights s) (bt_returns b ! t)) (\<lambda>products.
       let portfolio_return = sum_list products;
           value = portfolio_value s * (1 + portfolio_return)
       in
     and_then (elementwise (\<lambda>x y. x * y) (map (\<lambda>w. w * value) (current_weights s))
                 (map (\<lambda>r. 1 + r) (bt_returns b ! t))) (\<lambda>asset_values.
       if asset_values \<noteq> [] \<and> sum_list asset_values = 0 then NonFinite
       else
         (let drifted = map (\<lambda>a. a / sum_list asset_values) asset_values in
          and_then (assign_row (bt_N b) (weights_history s) t drifted) (\<lambda>history.
            Ok (s\<lparr> portfolio_returns := (portfolio_returns s)[t := portfolio_return],
                    portfolio_value := value,
                    portfolio_values := (portfolio_values s)[t := value],
                    current_weights := drifted,
                    weights_history := history \<rparr>)))))"

text \<open>
  One period \<open>t\<close> of \<^verbatim>\<open>for t in range(min_history, self.T)\<close>. The policy is asked with the
  current weights in both weight arguments; the window is optimised only once it has answered
  yes.
\<close>

definition backtest_period ::
  "'d backtester \<Rightarrow> 's torch_optim \<Rightarrow> string \<Rightarrow> nat \<Rightarrow> RebalanceFrequency \<Rightarrow> real
     \<Rightarrow> TransactionCostModel \<Rightarrow> real \<Rightarrow> real \<times> real \<Rightarrow> nat \<Rightarrow> 'd loop_state
     \<Rightarrow> 'd loop_state outcome" where
  "backtest_period b tor optimization_method lookback_window rebalance_freq rebalance_threshold
       cost_model cost_rate bounds t s =
     (let start_idx = t - lookback_window;
          historical_returns = take (t - start_idx) (drop start_idx (bt_returns b))
      in
      and_then (should_rebalance (current_weights s) (current_weights s) rebalance_freq
                  (int t) (int (last_rebalance_idx s)) rebalance_threshold) (\<lambda>due.
      and_then (if due then rebalance b tor optimization_method bounds cost_model cost_rate t
                              historical_returns s
                else Ok s) (\<lambda>s'.
        realize_and_drift b t s')))"

definition initial_state :: "'d backtester \<Rightarrow> nat \<Rightarrow> 'd loop_state" where
  "initial_state b min_history =
     (let T = length (bt_returns b);
          equal_weights = replicate (bt_N b) (1 / real (bt_N b))
      in \<lparr> portfolio_values = (replicate T 0)[0 := bt_initial_capital b],
           portfolio_returns = replicate T 0,
           weights_history = (replicate T (replicate (bt_N b) 0))[0 := equal_weights],
           rebalance_dates = [],
           transaction_costs = replicate T 0,
           turnover = replicate T 0,
           current_weights = equal_weights,
           portfolio_value = bt_initial_capital b,
           last_rebalance_idx = min_history \<rparr>)"

definition run_backtest ::
  "'d backtester \<Rightarrow> 's torch_optim \<Rightarrow> string \<Rightarrow> nat \<Rightarrow> RebalanceFrequency \<Rightarrow> real
     \<Rightarrow> TransactionCostModel \<Rightarrow> real \<Rightarrow> nat \<Rightarrow> real \<times> real \<Rightarrow> 'd BacktestResult outcome" where
  "run_backtest b tor optimization_method lookback_window rebalance_freq rebalance_threshold
       cost_model cost_rate min_history bounds =
     (if bt_returns b = [] then Raise IndexError
      else
        and_then
          (for_each (backtest_period b tor optimization_method lookback_window rebalance_freq
                       rebalance_threshold cost_model cost_rate bounds)
             [min_history..<length (bt_returns b)] (initial_state b min_history)) (\<lambda>s.
        and_then (compute_performance_metrics (bt_initial_capital b) (length (bt_returns b))
                    (portfolio_values s)
(portfolio_returns s) (transaction_costs s)) (\<lambda>m.
          Ok \<lparr> portfolio_values = portfolio_values s,
               portfolio_returns = portfolio_returns s,
               weights_history = weights_history s,
               rebalance_dates = rebalance_dates s,
               transaction_costs = transaction_costs s,
               turnover = turnover s,
               dates = bt_dates b,
               summary = m \<rparr>)))"

section \<open>MultiPeriodOptimizer\<close>

text \<open>
  The optimiser object. Its constructor estimates the mean and the covariance of the
  returns it is given. \<^verbatim>\<open>n_periods\<close> is a natural number here.
\<close>

record multi_period_optimizer =
  mp_returns :: matrix
  mp_N :: nat
  n_periods :: nat
  transaction_cost_rate :: real
  risk_aversion :: real

definition mean_returns :: "multi_period_optimizer \<Rightarrow> vec outcome" where
  "mean_returns mp = column_mean (mp_N mp) (mp_returns mp)"

definition cov :: "multi_period_optimizer \<Rightarrow> matrix outcome" where
  "cov mp = sample_cov (mp_N mp) (mp_returns mp)"

text \<open>
  The closure of \<^verbatim>\<open>_solve_single_period\<close> after its projection: the negated
  mean-variance utility, net of the cost of the turnover against \<^verbatim>\<open>current_weights\<close>.
\<close>

definition single_period_loss :: "multi_period_optimizer \<Rightarrow> vec \<Rightarrow> vec \<Rightarrow> real outcome" where
  "single_period_loss mp cur_weights weights =
     and_then (elementwise (\<lambda>x y. x - y) weights cur_weights) (\<lambda>d.
       let turnover_w = sum_list (map abs d);
           tc_cost = turnover_w * transaction_cost_rate mp
       in
     and_then (mean_returns mp) (\<lambda>mu.
     and_then (dot_checked weights mu) (\<lambda>expected_return.
     and_then (cov mp) (\<lambda>C.
     and_then (quad_form weights C) (\<lambda>variance.
       let utility = expected_return - 0.5 * risk_aversion mp * variance - tc_cost
       in Ok (- utility))))))"

text \<open>
  The closure of \<^verbatim>\<open>_solve_with_continuation\<close> after its projection. The continuation
  value is \<open>0.95\<close> times the immediate utility; the next period's weights are not read.
\<close>

definition continuation_loss :: "multi_period_optimizer \<Rightarrow> vec \<Rightarrow> vec \<Rightarrow> real outcome" where
  "continuation_loss mp cur_weights weights =
     and_then (elementwise (\<lambda>x y. x - y) weights cur_weights) (\<lambda>d.
       let turnover_w = sum_list (map abs d);
           tc_cost = turnover_w * transaction_cost_rate mp
       in
     and_then (mean_returns mp) (\<lambda>mu.
     and_then (dot_checked weights mu) (\<lambda>expected_return.
     and_then (cov mp) (\<lambda>C.
     and_then (quad_form weights C) (\<lambda>variance.
       let immediate_utility = expected_return - 0.5 * risk_aversion mp * variance;
           continuation = 0.95 * immediate_utility;
           total_value = immediate_utility - tc_cost + continuation
       in Ok (- total_value))))))"

text \<open>
  Both solvers start from a copy of \<^verbatim>\<open>current_weights\<close>, run fifty LBFGS steps and project
  once more.
\<close>

definition solve_single_period ::
  "'s torch_optim \<Rightarrow> multi_period_optimizer \<Rightarrow> vec \<Rightarrow> real \<times> real \<Rightarrow> vec outcome" where
  "solve_single_period tor mp cur_weights bounds =
     and_then (lbfgs_descent tor bounds (single_period_loss mp cur_weights) cur_weights)
       (project bounds)"

definition solve_with_continuation ::
  "'s torch_optim \<Rightarrow> multi_period_optimizer \<Rightarrow> vec \<Rightarrow> vec \<Rightarrow> real \<times> real \<Rightarrow> vec outcome" where
  "solve_with_continuation tor mp cur_weights next_period_weights bounds =
     and_then (lbfgs_descent tor bounds (continuation_loss mp cur_weights) cur_weights)
       (project bounds)"

text \<open>
  The weights \<^verbatim>\<open>optimize_dynamic_program\<close> hands to \<^verbatim>\<open>_solve_with_continuation\<close> as
  \<^verbatim>\<open>current_weights\<close> in period \<open>t\<close>: \<^verbatim>\<open>initial_weights if t == 0 else optimal_weights[t - 1]\<close>,
  read from the table as it stands when period \<open>t\<close> is solved.
\<close>

definition continuation_reference :: "vec \<Rightarrow> matrix \<Rightarrow> nat \<Rightarrow> vec" where
  "continuation_reference initial_weights optimal_weights t =
     (if t = 0 then initial_weights else optimal_weights ! (t - 1))"

text \<open>One period of \<^verbatim>\<open>for t in range(self.n_periods - 1, -1, -1)\<close>.\<close>

definition solve_period ::
  "'s torch_optim \<Rightarrow> multi_period_optimizer \<Rightarrow> vec \<Rightarrow> real \<times> real \<Rightarrow> nat \<Rightarrow> matrix
     \<Rightarrow> matrix outcome" where
  "solve_period tor mp initial_weights bounds t optimal_weights =
     (if t = n_periods mp - 1 then
        and_then (solve_single_period tor mp initial_weights bounds) (\<lambda>weights.
          assign_row (mp_N mp) optimal_weights t weights)
      else
        and_then (solve_with_continuation tor mp
                    (continuation_reference initial_weights optimal_weights t)
                    (optimal_weights ! (t + 1)) bounds) (\<lambda>weights.
          assign_row (mp_N mp) optimal_weights t weights))"

text \<open>
  The backward loop, from the table of zeros \<^verbatim>\<open>torch.zeros(self.n_periods, self.N)\<close>, run
  over the periods \<open>ts\<close> in the order given.
\<close>

definition backward_induction ::
  "'s torch_optim \<Rightarrow> multi_period_optimizer \<Rightarrow> vec \<Rightarrow> real \<times> real \<Rightarrow> nat list \<Rightarrow> matrix outcome" where
  "backward_induction tor mp initial_weights bounds ts =
     for_each (solve_period tor mp initial_weights bounds) ts
       (replicate (n_periods mp) (replicate (mp_N mp) 0))"

text \<open>\<^verbatim>\<open>_simulate_forward\<close>: the plan's wealth path; the last division is Python's.\<close>

record path_statistics =
  expected_utility :: real
  terminal_wealth :: real
  total_transaction_costs :: real
  average_period_return :: real

definition forward_period ::
  "multi_period_optimizer \<Rightarrow> matrix \<Rightarrow> nat \<Rightarrow> real \<times> vec \<times> real \<Rightarrow> (real \<times> vec \<times> real) outcome" where
  "forward_period mp optimal_weights t st =
     (case st of (wealth, current_w, total_tc) \<Rightarrow>
        (let target_w = optimal_weights ! t in
         and_then (elementwise (\<lambda>x y. x - y) target_w current_w) (\<lambda>d.
           let tc = sum_list (map abs d) * transaction_cost_rate mp in
         and_then (mean_returns mp) (\<lambda>mu.
         and_then (dot_checked target_w mu) (\<lambda>period_return.
           Ok ((wealth - tc) * (1 + period_return), target_w, total_tc + tc))))))"

definition simulate_forward ::
  "multi_period_optimizer \<Rightarrow> matrix \<Rightarrow> vec \<Rightarrow> path_statistics outcome" where
  "simulate_forward mp optimal_weights initial_weights =
     and_then (for_each (forward_period mp optimal_weights) [0..<n_periods mp]
                 (1, initial_weights, 0)) (\<lambda>(wealth, current_w, total_tc).
       if n_periods mp = 0 then Raise ZeroDivisionError
       else Ok \<lparr> expected_utility = wealth - 0.5 * risk_aversion mp * wealth\<^sup>2,
                 terminal_wealth = wealth,
                 total_transaction_costs = total_tc,
                 average_period_return = (wealth - 1) / real (n_periods mp) \<rparr>)"

record MultiPeriodResult =
  optimal_weights :: matrix
  path_stats :: path_statistics
  rebalancing_plan :: "(nat \<times> vec) list"

definition optimize_dynamic_program ::
  "'s torch_optim \<Rightarrow> multi_period_optimizer \<Rightarrow> vec \<Rightarrow> real \<times> real \<Rightarrow> MultiPeriodResult outcome" where
  "optimize_dynamic_program tor mp initial_weights bounds =
     and_then (backward_induction tor mp initial_weights bounds (rev [0..<n_periods mp]))
       (\<lambda>plan.
     and_then (simulate_forward mp plan initial_weights) (\<lambda>stats.
       Ok \<lparr> optimal_weights = plan,
            path_stats = stats,
            rebalancing_plan = map (\<lambda>t. (t, plan ! t)) [0..<n_periods mp] \<rparr>))"

text \<open>
  The value of an intermediate period as the specification words it, on indices: the
  immediate utility \<open>w\<^sup>T\<mu> - 0.5\<cdot>\<lambda>\<cdot>w\<^sup>T\<Sg>w\<close>, the transaction cost \<open>c \<cdot> \<Sum>\<^sub>i |w\<^sub>i - ref\<^sub>i|\<close>, and
  \<open>value = immediate_utility - cost + 0.95 \<cdot> immediate_utility\<close>.
\<close>

definition spec_immediate_utility :: "vec \<Rightarrow> matrix \<Rightarrow> real \<Rightarrow> vec \<Rightarrow> real" where
  "spec_immediate_utility mu Sg lam w =
     (\<Sum>i<length w. w ! i * mu ! i)
       - 0.5 * lam * (\<Sum>i<length w. \<Sum>j<length w. w ! i * Sg ! i ! j * w ! j)"

definition spec_transaction_cost :: "real \<Rightarrow> vec \<Rightarrow> vec \<Rightarrow> real" where
  "spec_transaction_cost c ref w = c * (\<Sum>i<length w. \<bar>w ! i - ref ! i\<bar>)"

definition spec_value :: "vec \<Rightarrow> matrix \<Rightarrow> real \<Rightarrow> real \<Rightarrow> vec \<Rightarrow> vec \<Rightarrow> real" where
  "spec_value mu Sg lam c ref w =
     spec_immediate_utility mu Sg lam w - spec_transaction_cost c ref w
       + 0.95 * spec_immediate_utility mu Sg lam w"

section \<open>TorchPortfolioOptimizer\<close>

text \<open>
  \<^verbatim>\<open>optimize_minimum_variance_torch\<close>. Its closure keeps the best loss seen (infinite at
  first, \<open>None\<close> here) and counts the calls that did not improve on it by \<open>1e-8\<close>; the loop of
  \<^verbatim>\<open>max_iter // 20\<close> LBFGS steps stops once the count exceeds ten. There is no check of the
  bounds before the loop.
\<close>

definition track_loss :: "real \<Rightarrow> real option \<times> nat \<Rightarrow> real option \<times> nat" where
  "track_loss l st =
     (case st of (best_loss, no_improve) \<Rightarrow>
        (if (case best_loss of None \<Rightarrow> True | Some b \<Rightarrow> l < b - 1 / 100000000)
         then (Some l, 0) else (best_loss, no_improve + 1)))"

fun wolfe_epochs ::
  "'s torch_optim \<Rightarrow> real \<times> real \<Rightarrow> (vec \<Rightarrow> real outcome) \<Rightarrow> nat
     \<Rightarrow> ('s \<times> vec) \<times> (real option \<times> nat) \<Rightarrow> vec outcome" where
  "wolfe_epochs tor bounds loss 0 st = Ok (snd (fst st))"
| "wolfe_epochs tor bounds loss (Suc k) st =
     and_then (wolfe_step tor (project bounds) loss (fst st)) (\<lambda>(s, w, losses).
       let counters = fold track_loss losses (snd st) in
       if snd counters > 10 then Ok w
       else wolfe_epochs tor bounds loss k ((s, w), counters))"

definition optimize_minimum_variance_torch ::
  "'s torch_optim \<Rightarrow> nat \<Rightarrow> matrix \<Rightarrow> real \<times> real \<Rightarrow> nat \<Rightarrow> vec outcome" where
  "optimize_minimum_variance_torch tor n returns bounds max_iter =
     (if n = 0 then Raise ZeroDivisionError
      else
        and_then (wolfe_epochs tor bounds (minimum_variance_loss (sample_cov n returns))
                    (max_iter div 20) ((wolfe_new tor, replicate n (1 / real n)), (None, 0)))
          (project bounds))"

section \<open>Concrete inputs\<close>

text \<open>
  Inputs at which the theorems below are evaluated: an optimiser whose steps leave the
  weights where they are, and a two-asset, three-period multi-period optimiser.
\<close>

definition still_optim :: "unit torch_optim" where
  "still_optim = \<lparr> lbfgs_new = (), lbfgs_step = (\<lambda>p l sw. Ok sw), adam_new = (),
     adam_step = (\<lambda>l sw. Ok sw), wolfe_new = (),
     wolfe_step = (\<lambda>p l sw. Ok (fst sw, snd sw, [])) \<rparr>"

definition mp1 :: multi_period_optimizer where
  "mp1 = \<lparr> mp_returns = [[1/100, 0], [3/100, 2/100]], mp_N = 2, n_periods = 3,
           transaction_cost_rate = 1/1000, risk_aversion = 1 \<rparr>"

text \<open>
  Two backtests over two assets and four periods, with two periods of history: in the first
  the assets' returns differ in period 2, so the weights drift; in the second the returns of
  period 2 are below \<open>-100%\<close>, so the portfolio value turns negative.
\<close>

definition b1 :: "nat backtester" where
  "b1 = \<lparr> bt_returns = [[0, 0], [0, 0], [1, 0], [-1/2, 0]], bt_N = 2,
           bt_dates = [0, 1, 2, 3], bt_initial_capital = 1000 \<rparr>"

definition b2 :: "nat backtester" where
  "b2 = \<lparr> bt_returns = [[0, 0], [0, 0], [-2, -3], [0, 0]], bt_N = 2,
           bt_dates = [0, 1, 2, 3], bt_initial_capital = 1000 \<rparr>"

section \<open>Theorems\<close>

lemma and_then_Ok [simp]: "and_then (Ok x) f = f x"
  by (simp add: and_then_def)

lemma and_then_Raise [simp]: "and_then (Raise e) f = Raise e"
  by (simp add: and_then_def)

lemma and_then_NonFinite [simp]: "and_then NonFinite f = NonFinite"
  by (simp add: and_then_def)

lemma and_then_eq_Ok:
  "and_then m f = Ok y \<longleftrightarrow> (\<exists>x. m = Ok x \<and> f x = Ok y)"
  by (cases m) simp_all

lemma elementwise_same_length:
  "length a = length b \<Longrightarrow> elementwise f a b = Ok (map2 f a b)"
  by (simp add: elementwise_def)

lemma sum_list_map2_nth:
  "length xs = length ys \<Longrightarrow>
   sum_list (map2 f xs ys) = (\<Sum>i<length xs. f (xs ! i) (ys ! i))"
proof -
  assume len: "length xs = length ys"
  have "sum_list (map2 f xs ys) = (\<Sum>i<length (map2 f xs ys). map2 f xs ys ! i)"
    by (simp add: sum_list_sum_nth atLeast0LessThan)
  also have "\<dots> = (\<Sum>i<length xs. f (xs ! i) (ys ! i))"
    using len by (intro sum.cong) simp_all
  finally show ?thesis .
qed

lemma proportional_cost_formula:
  assumes "length old = length new"
  shows "compute_transaction_costs old new V PROPORTIONAL rate fixed coef =
         Ok (rate * (\<Sum>i<length new. \<bar>new ! i - old ! i\<bar>) * V)"
proof -
  have len: "length new = length old" using assms by simp
  have "sum_list (map (\<lambda>d. \<bar>d\<bar> * V) (map2 (\<lambda>x y. x - y) new old)) =
        sum_list (map2 (\<lambda>x y. \<bar>x - y\<bar> * V) new old)"
    by (simp add: map_zip_map o_def split_def)
  also have "\<dots> = (\<Sum>i<length new. \<bar>new ! i - old ! i\<bar> * V)"
    using len by (rule sum_list_map2_nth)
  also have "\<dots> = (\<Sum>i<length new. \<bar>new ! i - old ! i\<bar>) * V"
    by (simp add: sum_distrib_right)
  finally show ?thesis
    using len by (simp add: compute_transaction_costs_def elementwise_same_length)
qed

subsection \<open>The proportional cost\<close>

lemma pow2_powr: "pow2 e = 2 powr real_of_int e"
  by (simp add: pow2_def powr_real_of_int field_simps)

lemma binade_eq:
  assumes "x \<noteq> 0" and "pow2 e \<le> \<bar>x\<bar>" and "\<bar>x\<bar> < pow2 (e + 1)"
  shows "\<lfloor>log 2 \<bar>x\<bar>\<rfloor> = e"
proof -
  have "0 < \<bar>x\<bar>" using assms(1) by simp
  moreover have "(1::real) < 2" by simp
  ultimately show ?thesis
    using assms(2,3) by (simp only: floor_log_eq_powr_iff pow2_powr of_int_add of_int_1)
qed

lemma fl_round_at:
  assumes "x \<noteq> 0" and "pow2 e \<le> \<bar>x\<bar>" and "\<bar>x\<bar> < pow2 (e + 1)"
  shows "fl_round p x = of_int (round_to_even (x / pow2 (e - int p + 1))) * pow2 (e - int p + 1)"
  using assms(1) by (simp add: fl_round_def binade_eq [OF assms] Let_def)

lemmas fl_round_binades =
  fl_round_at [where e = "-7"] fl_round_at [where e = "-3"] fl_round_at [where e = "-2"]
  fl_round_at [where e = "-1"] fl_round_at [where e = 1] fl_round_at [where e = 7]
  fl_round_at [where e = 8] fl_round_at [where e = 9]

lemma decimal_inputs:
  "fl_round 24 (fl_round 53 (7/10)) = fl_round 24 (7/10)"
  "fl_round 24 (fl_round 53 (3/10)) = fl_round 24 (3/10)"
  "fl_round 24 (7/10) = 11744051 / 2 ^ 24"
  "fl_round 24 (3/10) = 10066330 / 2 ^ 25"
  "fl_round 53 (1/100) = 5764607523034235 / 2 ^ 59"
  by (simp_all add: fl_round_binades pow2_def round_to_even_def)

lemma scenario_float32:
  "float_proportional_cost 24 [1/2, 1/2] [fl_round 24 (7/10), fl_round 24 (3/10)] 1000
     (fl_round 53 (1/100)) = 9007198567546225 / 2 ^ 51"
  by (simp add: float_proportional_cost_def fl_round_binades pow2_def round_to_even_def)

lemma scenario_float64:
  "float_proportional_cost 53 [1/2, 1/2] [fl_round 53 (7/10), fl_round 53 (3/10)] 1000
     (fl_round 53 (1/100)) = 9007199254740991 / 2 ^ 51"
  by (simp add: float_proportional_cost_def fl_round_binades pow2_def round_to_even_def)

lemma fl_round_zero [simp]: "fl_round p 0 = 0"
  by (simp add: fl_round_def)

lemma fl_round_funpow_zero: "(fl_round p ^^ k) 0 = 0"
  by (induction k) simp_all

lemma float_no_trade:
  "float_proportional_cost p w w V rate = 0"
proof -
  have "map2 (\<lambda>x y. fl_round p (x - y)) w w = replicate (length w) 0"
    by (induction w) simp_all
  then show ?thesis
    by (simp add: float_proportional_cost_def fl_round_funpow_zero)
qed

text \<open>
  Claim C6, as amended. In exact arithmetic, for weight vectors \<open>old\<close> and \<open>new\<close> over the same
  assets, every portfolio value \<open>V\<close> and every rate, the \<open>PROPORTIONAL\<close> cost is
  \<open>rate \<cdot> (\<Sum>\<^sub>i |new\<^sub>i - old\<^sub>i|) \<cdot> V\<close>, and it is \<open>4\<close> for \<open>old = [0.5, 0.5]\<close>, \<open>new = [0.7, 0.3]\<close>,
  \<open>V = 1000\<close>, \<open>rate = 0.01\<close>. The code rounds every operation. With equal old and new weights
  its cost is exactly \<open>0\<close> all the same. At the scenario it returns
  \<open>9007198567546225 / 2\<^sup>5\<^sup>1 = 3.999999694824219\<close> on float32 tensors and
  \<open>9007199254740991 / 2\<^sup>5\<^sup>1 = 3.9999999999999996\<close> on float64 tensors, each within \<open>10\<^sup>-\<^sup>6\<close>
  of \<open>4\<close>.
\<close>

theorem proportional_cost_up_to_rounding:
  assumes "length old = length new"
  shows "compute_transaction_costs old new V PROPORTIONAL rate fixed coef =
           Ok (rate * (\<Sum>i<length new. \<bar>new ! i - old ! i\<bar>) * V)
       \<and> compute_transaction_costs w w V PROPORTIONAL rate fixed coef = Ok 0
       \<and> float_proportional_cost p w w V rate = 0
       \<and> compute_transaction_costs [1/2, 1/2] [7/10, 3/10] 1000 PROPORTIONAL (1/100) 0 0 = Ok 4
       \<and> float_proportional_cost 24 [1/2, 1/2] [fl_round 24 (7/10), fl_round 24 (3/10)] 1000
             (fl_round 53 (1/100)) = 9007198567546225 / 2 ^ 51
       \<and> float_proportional_cost 53 [1/2, 1/2] [fl_round 53 (7/10), fl_round 53 (3/10)] 1000
             (fl_round 53 (1/100)) = 9007199254740991 / 2 ^ 51
       \<and> \<bar>9007198567546225 / 2 ^ 51 - 4\<bar> < (1 / 10 ^ 6 :: real)
       \<and> \<bar>9007199254740991 / 2 ^ 51 - 4\<bar> < (1 / 10 ^ 6 :: real)"
proof (intro conjI)
  show "compute_transaction_costs old new V PROPORTIONAL rate fixed coef =
           Ok (rate * (\<Sum>i<length new. \<bar>new ! i - old ! i\<bar>) * V)"
    using assms by (rule proportional_cost_formula)
  have "compute_transaction_costs w w V PROPORTIONAL rate fixed coef =
          Ok (rate * (\<Sum>i<length w. \<bar>w ! i - w ! i\<bar>) * V)"
    by (rule proportional_cost_formula) simp
  then show "compute_transaction_costs w w V PROPORTIONAL rate fixed coef = Ok 0"
    by simp
  show "float_proportional_cost p w w V rate = 0"
    by (rule float_no_trade)
  show "compute_transaction_costs [1/2, 1/2] [7/10, 3/10] 1000 PROPORTIONAL (1/100) 0 0 = Ok 4"
    by (simp add: compute_transaction_costs_def elementwise_def)
  show "float_proportional_cost 24 [1/2, 1/2] [fl_round 24 (7/10), fl_round 24 (3/10)] 1000
             (fl_round 53 (1/100)) = 9007198567546225 / 2 ^ 51"
    by (rule scenario_float32)
  show "float_proportional_cost 53 [1/2, 1/2] [fl_round 53 (7/10), fl_round 53 (3/10)] 1000
             (fl_round 53 (1/100)) = 9007199254740991 / 2 ^ 51"
    by (rule scenario_float64)
  show "\<bar>9007198567546225 / 2 ^ 51 - 4\<bar> < (1 / 10 ^ 6 :: real)" by simp
  show "\<bar>9007199254740991 / 2 ^ 51 - 4\<bar> < (1 / 10 ^ 6 :: real)" by simp
qed

theorem proportional_cost_up_to_rounding_witness:
  "length [1/2, 1/2 :: real] = length [7/10, 3/10 :: real]
   \<and> compute_transaction_costs [1/2, 1/2] [7/10, 3/10] 1000 PROPORTIONAL (1/100) 5 7 =
       Ok (1/100 * (\<Sum>i<2. \<bar>[7/10, 3/10] ! i - [1/2, 1/2] ! i\<bar>) * 1000)
   \<and> compute_transaction_costs [1/4, 3/4] [1/4, 3/4] 1000 PROPORTIONAL (1/100) 5 7 = Ok 0
   \<and> float_proportional_cost 24 [1/4, 3/4] [1/4, 3/4] 1000 (1/100) = 0"
proof -
  have l: "length [1/2, 1/2 :: real] = length [7/10, 3/10 :: real]" by simp
  note inst = proportional_cost_up_to_rounding [OF l, where V = 1000 and rate = "1/100"
      and fixed = 5 and coef = 7 and w = "[1/4, 3/4]" and p = 24]
  have a: "compute_transaction_costs [1/2, 1/2] [7/10, 3/10] 1000 PROPORTIONAL (1/100) 5 7 =
       Ok (1/100 * (\<Sum>i<2. \<bar>[7/10, 3/10] ! i - [1/2, 1/2] ! i\<bar>) * 1000)"
    using inst by (simp add: numeral_2_eq_2)
  have b: "compute_transaction_costs [1/4, 3/4] [1/4, 3/4] 1000 PROPORTIONAL (1/100) 5 7 = Ok 0"
    using inst by blast
  have c: "float_proportional_cost 24 [1/4, 3/4] [1/4, 3/4] 1000 (1/100) = 0"
    using inst by blast
  from l a b c show ?thesis by blast
qed

text \<open>
  The claim as stated fails: at the scenario the cost the code returns is not \<open>4.0\<close>, on
  float32 tensors and on float64 tensors.
\<close>

theorem proportional_cost_not_exactly_four:
  "float_proportional_cost 24 [1/2, 1/2] [fl_round 24 (7/10), fl_round 24 (3/10)] 1000
     (fl_round 53 (1/100)) \<noteq> 4
   \<and> float_proportional_cost 53 [1/2, 1/2] [fl_round 53 (7/10), fl_round 53 (3/10)] 1000
     (fl_round 53 (1/100)) \<noteq> 4"
  by (simp add: scenario_float32 scenario_float64)

subsection \<open>The maximum drawdown\<close>

lemma running_max_length [simp]: "length (running_max m xs) = length xs"
  by (induction xs arbitrary: m) simp_all

lemma running_max_nth:
  "i < length xs \<Longrightarrow> running_max m xs ! i = fold max (take (Suc i) xs) m"
proof (induction xs arbitrary: m i)
  case Nil
  then show ?case by simp
next
  case (Cons x xs)
  show ?case
  proof (cases i)
    case 0
    then show ?thesis by (simp add: max.commute)
  next
    case (Suc k)
    with Cons.prems have k: "k < length xs" by simp
    show ?thesis using Suc Cons.IH [OF k] by (simp add: max.commute)
  qed
qed

lemma cummax_length [simp]: "length (cummax V) = length V"
  by (cases V) (simp_all add: cummax_def)

lemma cummax_nth: "t < length V \<Longrightarrow> cummax V ! t = spec_running_max V t"
proof (cases V)
  case Nil
  assume "t < length V"
  with Nil show ?thesis by simp
next
  case (Cons x xs)
  assume t: "t < length V"
  have spec: "spec_running_max V t = fold max (take t xs) x"
    unfolding spec_running_max_def Cons by (simp only: take_Suc_Cons Max.set_eq_fold)
  show ?thesis
  proof (cases t)
    case 0
    then show ?thesis using Cons spec by (simp add: cummax_def)
  next
    case (Suc k)
    with t Cons have "k < length xs" by simp
    then show ?thesis
      using Cons Suc spec by (simp add: cummax_def running_max_nth)
  qed
qed

lemma spec_running_max_mem: "t < length V \<Longrightarrow> spec_running_max V t \<in> set V"
proof -
  assume t: "t < length V"
  have ne: "set (take (Suc t) V) \<noteq> {}" using t by (cases V) auto
  have "Max (set (take (Suc t) V)) \<in> set (take (Suc t) V)"
    using ne by (intro Max_in) simp_all
  then show ?thesis
    unfolding spec_running_max_def using set_take_subset by fastforce
qed

lemma spec_running_max_ge: "t < length V \<Longrightarrow> V ! t \<le> spec_running_max V t"
proof -
  assume t: "t < length V"
  have "V ! t = take (Suc t) V ! t" by simp
  also have "\<dots> \<in> set (take (Suc t) V)" using t by (intro nth_mem) simp
  finally show ?thesis unfolding spec_running_max_def by (intro Max_ge) simp_all
qed

lemma set_map2_nth:
  "length xs = length ys \<Longrightarrow> set (map2 f xs ys) = (\<lambda>t. f (xs ! t) (ys ! t)) ` {..<length xs}"
proof -
  assume len: "length xs = length ys"
  have "map2 f xs ys = map (\<lambda>t. f (xs ! t) (ys ! t)) [0..<length xs]"
    using len by (intro nth_equalityI) simp_all
  then show ?thesis by (simp add: atLeast0LessThan)
qed

lemma tensor_min_Min: "xs \<noteq> [] \<Longrightarrow> tensor_min xs = Ok (Min (set xs))"
proof (cases xs)
  case Nil
  assume "xs \<noteq> []"
  with Nil show ?thesis by simp
next
  case (Cons a list)
  have "fold min list a = Min (set (a # list))" by (simp only: Min.set_eq_fold)
  then show ?thesis using Cons by (simp add: tensor_min_def)
qed

lemma max_drawdown_of_spec:
  assumes ne: "V \<noteq> []" and pos: "\<forall>v\<in>set V. 0 < v"
  shows "max_drawdown_of V = Ok (spec_max_drawdown V)"
proof -
  let ?dd = "map2 (\<lambda>v m. (v - m) / m) V (cummax V)"
  have nz: "\<not> list_ex (\<lambda>m. m = 0) (cummax V)"
  proof
    assume "list_ex (\<lambda>m. m = 0) (cummax V)"
    then obtain t where t: "t < length V" and z: "cummax V ! t = 0"
      by (auto simp: list_ex_iff in_set_conv_nth)
    then have "spec_running_max V t = 0" by (simp add: cummax_nth)
    with spec_running_max_mem [OF t] pos show False by force
  qed
  have "set ?dd = (\<lambda>t. (V ! t - cummax V ! t) / cummax V ! t) ` {..<length V}"
    by (rule set_map2_nth) simp
  also have "\<dots> = (\<lambda>t. (V ! t - spec_running_max V t) / spec_running_max V t) ` {..<length V}"
    by (intro image_cong) (simp_all add: cummax_nth)
  finally have "Min (set ?dd) = spec_max_drawdown V"
    by (simp add: spec_max_drawdown_def)
  moreover have "?dd \<noteq> []" using ne by (cases V) (simp_all add: cummax_def)
  ultimately show ?thesis
    using ne nz by (simp add: max_drawdown_of_def Let_def tensor_min_Min)
qed

lemma spec_max_drawdown_nonpos:
  assumes ne: "V \<noteq> []" and pos: "\<forall>v\<in>set V. 0 < v"
  shows "spec_max_drawdown V \<le> 0"
proof -
  let ?f = "\<lambda>t. (V ! t - spec_running_max V t) / spec_running_max V t"
  have z: "0 < length V" using ne by simp
  have "0 < spec_running_max V 0" using spec_running_max_mem [OF z] pos by blast
  moreover have "V ! 0 \<le> spec_running_max V 0" using z by (rule spec_running_max_ge)
  ultimately have "?f 0 \<le> 0" by (simp add: divide_le_0_iff)
  moreover have "Min (?f ` {..<length V}) \<le> ?f 0"
    using z by (intro Min_le) auto
  ultimately show ?thesis unfolding spec_max_drawdown_def by linarith
qed

text \<open>
  Claim C7. For a non-empty series \<open>V\<close> of positive portfolio values, the maximum drawdown
  the code computes is the least of \<open>(V\<^sub>t - M\<^sub>t) / M\<^sub>t\<close> over the periods, \<open>M\<close> the running
  maximum; it is not positive; it is what the metrics dictionary reports; and on
  \<open>[100, 120, 90, 110]\<close> it is \<open>-0.25\<close>.
\<close>

theorem max_drawdown_formula:
  assumes "V \<noteq> []" and "\<forall>v\<in>set V. 0 < v"
  shows "max_drawdown_of V = Ok (spec_max_drawdown V)
       \<and> spec_max_drawdown V \<le> 0
       \<and> (\<forall>m. compute_performance_metrics capital T V rets costs = Ok m
              \<longrightarrow> max_drawdown m = Some (spec_max_drawdown V))
       \<and> max_drawdown_of [100, 120, 90, 110] = Ok (- (1/4))"
proof (intro conjI allI impI)
  show a: "max_drawdown_of V = Ok (spec_max_drawdown V)"
    using assms by (rule max_drawdown_of_spec)
  show "spec_max_drawdown V \<le> 0" using assms by (rule spec_max_drawdown_nonpos)
  show "max_drawdown m = Some (spec_max_drawdown V)"
    if "compute_performance_metrics capital T V rets costs = Ok m" for m
    using that a by (auto simp: compute_performance_metrics_def Let_def split: if_splits)
  show "max_drawdown_of [100, 120, 90, 110] = Ok (- (1/4))"
    by (simp add: max_drawdown_of_def cummax_def tensor_min_def)
qed

theorem max_drawdown_formula_witness:
  "[100, 120, 90, 110 :: real] \<noteq> []
   \<and> max_drawdown_of [100, 120, 90, 110] = Ok (spec_max_drawdown [100, 120, 90, 110])
   \<and> spec_max_drawdown [100, 120, 90, 110] = - (1/4)
   \<and> (\<exists>m. compute_performance_metrics 100 4 [100, 120, 90, 110] [0, 1/5, - (1/4), 2/9]
              [0, 0, 0, 0] = Ok m \<and> max_drawdown m = Some (spec_max_drawdown [100, 120, 90, 110]))"
proof -
  have pos: "\<forall>v\<in>set [100, 120, 90, 110 :: real]. 0 < v" by simp
  have ne: "[100, 120, 90, 110 :: real] \<noteq> []" by simp
  note inst = max_drawdown_formula [OF ne pos, of 100 4 "[0, 1/5, - (1/4), 2/9]" "[0, 0, 0, 0]"]
  have run: "\<exists>m. compute_performance_metrics 100 4 [100, 120, 90, 110] [0, 1/5, - (1/4), 2/9]
              [0, 0, 0, 0] = Ok m"
    by (simp add: compute_performance_metrics_def)
  from inst run show ?thesis by auto
qed

subsection \<open>The value of an intermediate period\<close>

lemma dot_nth: "length a = length b \<Longrightarrow> dot a b = (\<Sum>i<length a. a ! i * b ! i)"
  unfolding dot_def by (rule sum_list_map2_nth)

lemma sum_list_map_upt: "sum_list (map f [0..<n]) = (\<Sum>i<n. f i)"
  by (simp add: sum_list_sum_nth atLeast0LessThan)

lemma quad_nth:
  assumes "length C = length w"
  shows "dot (vec_mat w C) w = (\<Sum>i<length w. \<Sum>j<length w. w ! i * C ! i ! j * w ! j)"
proof -
  have col: "dot w (column j C) = (\<Sum>i<length w. w ! i * C ! i ! j)" for j
    using assms by (simp add: dot_nth column_def)
  have "dot (vec_mat w C) w = (\<Sum>j<length w. (\<Sum>i<length w. w ! i * C ! i ! j) * w ! j)"
    by (simp add: dot_nth vec_mat_def col)
  also have "\<dots> = (\<Sum>j<length w. \<Sum>i<length w. w ! i * C ! i ! j * w ! j)"
    by (simp add: sum_distrib_right)
  also have "\<dots> = (\<Sum>i<length w. \<Sum>j<length w. w ! i * C ! i ! j * w ! j)"
    by (rule sum.swap)
  finally show ?thesis .
qed

lemma turnover_nth:
  "length w = length r \<Longrightarrow>
   sum_list (map abs (map2 (\<lambda>x y. x - y) w r)) = (\<Sum>i<length w. \<bar>w ! i - r ! i\<bar>)"
proof -
  assume len: "length w = length r"
  have "sum_list (map abs (map2 (\<lambda>x y. x - y) w r)) = sum_list (map2 (\<lambda>x y. \<bar>x - y\<bar>) w r)"
    by (simp add: map_zip_map o_def split_def)
  also have "\<dots> = (\<Sum>i<length w. \<bar>w ! i - r ! i\<bar>)"
    using len by (rule sum_list_map2_nth)
  finally show ?thesis .
qed

text \<open>
  Claim C8. In every period \<open>t\<close> other than the last, the dynamic program minimises, from
  the period's reference weights and under the projection, the loss of
  \<^verbatim>\<open>_solve_with_continuation\<close>; at weights \<open>w\<close> that loss is the negated
  \<open>value = immediate_utility - transaction_cost + 0.95 \<cdot> immediate_utility\<close>, with
  \<open>immediate_utility = w\<^sup>T\<mu> - 0.5\<cdot>\<lambda>\<cdot>w\<^sup>T\<Sigma>w\<close> and \<open>transaction_cost = c \<cdot> \<Sum>\<^sub>i |w\<^sub>i - ref\<^sub>i|\<close>.
\<close>

theorem continuation_objective:
  assumes "mean_returns mp = Ok mu" and "cov mp = Ok Sg"
    and "length ref = length w" and "length mu = length w" and "length Sg = length w"
    and "t \<noteq> n_periods mp - 1"
  shows "continuation_loss mp ref w =
           Ok (- spec_value mu Sg (risk_aversion mp) (transaction_cost_rate mp) ref w)
       \<and> solve_period tor mp initial_weights bounds t plan =
           and_then
             (and_then
                (lbfgs_descent tor bounds
                   (continuation_loss mp (continuation_reference initial_weights plan t))
                   (continuation_reference initial_weights plan t))
                (project bounds))
             (assign_row (mp_N mp) plan t)"
proof
  show "continuation_loss mp ref w =
           Ok (- spec_value mu Sg (risk_aversion mp) (transaction_cost_rate mp) ref w)"
  proof -
    have e: "elementwise (\<lambda>x y. x - y) w ref = Ok (map2 (\<lambda>x y. x - y) w ref)"
      using assms(3) by (simp add: elementwise_same_length)
    have t: "sum_list (map abs (map2 (\<lambda>x y. x - y) w ref)) = (\<Sum>i<length w. \<bar>w ! i - ref ! i\<bar>)"
      using assms(3) by (intro turnover_nth) simp
    have d: "dot_checked w mu = Ok (\<Sum>i<length w. w ! i * mu ! i)"
      using assms(4) by (simp add: dot_checked_def dot_nth)
    have q: "quad_form w Sg = Ok (\<Sum>i<length w. \<Sum>j<length w. w ! i * Sg ! i ! j * w ! j)"
      using assms(5) by (simp add: quad_form_def quad_nth)
    show ?thesis
      unfolding continuation_loss_def e and_then_Ok Let_def t assms(1) assms(2) d q
      by (simp add: spec_value_def spec_immediate_utility_def spec_transaction_cost_def)
  qed
  show "solve_period tor mp initial_weights bounds t plan =
           and_then
             (and_then
                (lbfgs_descent tor bounds
                   (continuation_loss mp (continuation_reference initial_weights plan t))
                   (continuation_reference initial_weights plan t))
                (project bounds))
             (assign_row (mp_N mp) plan t)"
    using assms(6) by (simp add: solve_period_def solve_with_continuation_def)
qed

theorem continuation_objective_witness:
  "mean_returns mp1 = Ok [1/50, 1/100]
   \<and> cov mp1 = Ok [[1/5000, 1/5000], [1/5000, 1/5000]]
   \<and> continuation_loss mp1 [1/2, 1/2] [7/10, 3/10] = Ok (- (6511/200000))
   \<and> spec_value [1/50, 1/100] [[1/5000, 1/5000], [1/5000, 1/5000]] 1 (1/1000) [1/2, 1/2]
        [7/10, 3/10] = 6511/200000"
proof -
  have m: "mean_returns mp1 = Ok [1/50, 1/100]"
    by (simp add: mean_returns_def mp1_def column_mean_def column_def numeral_2_eq_2)
  have c: "cov mp1 = Ok [[1/5000, 1/5000], [1/5000, 1/5000]]"
    by (simp add: cov_def mp1_def sample_cov_def column_def numeral_2_eq_2)
  have v: "spec_value [1/50, 1/100] [[1/5000, 1/5000], [1/5000, 1/5000]] 1 (1/1000) [1/2, 1/2]
        [7/10, 3/10] = 6511/200000"
    by (simp add: spec_value_def spec_immediate_utility_def spec_transaction_cost_def
        numeral_2_eq_2)
  have t: "(1::nat) \<noteq> n_periods mp1 - 1" by (simp add: mp1_def)
  have "continuation_loss mp1 [1/2, 1/2] [7/10, 3/10] =
          Ok (- spec_value [1/50, 1/100] [[1/5000, 1/5000], [1/5000, 1/5000]]
                 (risk_aversion mp1) (transaction_cost_rate mp1) [1/2, 1/2] [7/10, 3/10])"
    by (rule conjunct1 [OF continuation_objective [OF m c _ _ _ t]]) simp_all
  then show ?thesis using m c v by (simp add: mp1_def)
qed

subsection \<open>Windows shorter than two rows\<close>

lemma optimize_weights_default:
  assumes "0 < n"
    and "method \<noteq> ''minimum_variance''" and "method \<noteq> ''maximum_sharpe''"
    and "method \<noteq> ''risk_parity''"
  shows "optimize_weights tor n X method bounds = project bounds (replicate n (1 / real n))"
  using assms by (simp add: optimize_weights_def)

text \<open>
  Claim C4, as amended. For a window of fewer than two rows (and at least one asset) the
  estimation raises nothing: an empty window gives a non-finite mean and a zero covariance,
  a one-row window gives that row as the mean and a non-finite covariance; and
  \<^verbatim>\<open>_optimize_weights\<close> with a method name that selects no optimiser goes on to return
  the projected equal weights.
\<close>

theorem short_window_moments:
  assumes "length X < 2" and "0 < n"
  shows "column_mean n X = (if X = [] then NonFinite else Ok (map (\<lambda>j. hd X ! j) [0..<n]))
       \<and> sample_cov n X = (if X = [] then Ok (replicate n (replicate n 0)) else NonFinite)
       \<and> (method \<noteq> ''minimum_variance'' \<and> method \<noteq> ''maximum_sharpe''
            \<and> method \<noteq> ''risk_parity''
          \<longrightarrow> optimize_weights tor n X method bounds = project bounds (replicate n (1 / real n)))"
proof (intro conjI impI)
  have one: "X \<noteq> [] \<Longrightarrow> length X = 1" using assms(1) by (cases X) simp_all
  have "X \<noteq> [] \<Longrightarrow> X = [hd X]" using assms(1) by (cases X) simp_all
  then have col: "X \<noteq> [] \<Longrightarrow> sum_list (column j X) = hd X ! j" for j
    by (metis column_def list.simps(8,9) sum_list.Cons sum_list.Nil add.right_neutral)
  show "column_mean n X = (if X = [] then NonFinite else Ok (map (\<lambda>j. hd X ! j) [0..<n]))"
    using assms(2) one col by (simp add: column_mean_def)
  show "sample_cov n X = (if X = [] then Ok (replicate n (replicate n 0)) else NonFinite)"
    using assms(2) one by (simp add: sample_cov_def)
  show "optimize_weights tor n X method bounds = project bounds (replicate n (1 / real n))"
    if "method \<noteq> ''minimum_variance'' \<and> method \<noteq> ''maximum_sharpe''
            \<and> method \<noteq> ''risk_parity''"
    using that assms(2) by (simp add: optimize_weights_default)
qed

theorem short_window_moments_witness:
  "length [[1/100, 1/50 :: real]] < 2
   \<and> column_mean 2 [[1/100, 1/50]] = Ok [1/100, 1/50]
   \<and> sample_cov 2 [[1/100, 1/50]] = NonFinite
   \<and> optimize_weights still_optim 2 [[1/100, 1/50]] ''equal_weight'' (0, 1) = Ok [1/2, 1/2]"
proof -
  have l: "length [[1/100, 1/50 :: real]] < 2" by simp
  have n: "(0::nat) < 2" by simp
  have p: "project (0, 1) (replicate 2 (1 / real 2)) = Ok [1/2, 1/2]"
    by (simp add: project_def numeral_2_eq_2)
  show ?thesis
    using short_window_moments [OF l n, of "''equal_weight''" still_optim "(0, 1)"] p
    by (simp add: numeral_2_eq_2)
qed

text \<open>
  The claim as stated fails: on a one-row window neither statistic raises
  \<open>InsufficientDataError\<close>, and the optimiser returns weights.
\<close>

theorem short_window_not_rejected:
  "length [[1/100, 1/50 :: real]] < 2
   \<and> column_mean 2 [[1/100, 1/50]] \<noteq> Raise InsufficientDataError
   \<and> sample_cov 2 [[1/100, 1/50]] \<noteq> Raise InsufficientDataError
   \<and> optimize_weights still_optim 2 [[1/100, 1/50]] ''equal_weight'' (0, 1) = Ok [1/2, 1/2]"
  by (simp add: column_mean_def sample_cov_def optimize_weights_def project_def numeral_2_eq_2)

subsection \<open>Bounds that leave the simplex empty\<close>

lemma and_then_eq_Raise:
  "and_then m f = Raise e \<longleftrightarrow> m = Raise e \<or> (\<exists>x. m = Ok x \<and> f x = Raise e)"
  by (cases m) simp_all

lemma project_not_Raise: "project bounds w \<noteq> Raise e"
  by (simp add: project_def Let_def)

lemma for_each_not_Raise:
  assumes "\<And>i s. body i s \<noteq> Raise e"
  shows "for_each body ixs s \<noteq> Raise e"
proof (induction ixs arbitrary: s)
  case Nil
  show ?case by simp
next
  case (Cons i ixs)
  show ?case using assms Cons.IH by (simp add: and_then_eq_Raise)
qed

lemma lbfgs_descent_not_Raise:
  assumes "\<And>p l sw. lbfgs_step tor p l sw \<noteq> Raise e"
  shows "lbfgs_descent tor bounds loss w0 \<noteq> Raise e"
proof -
  have "for_each (\<lambda>_. lbfgs_step tor (project bounds) loss) [0..<50] (lbfgs_new tor, w0) \<noteq> Raise e"
    by (rule for_each_not_Raise) (rule assms)
  then show ?thesis
    by (auto simp: lbfgs_descent_def and_then_eq_Raise)
qed

lemma wolfe_epochs_not_Raise:
  assumes "\<And>p l sw. wolfe_step tor p l sw \<noteq> Raise e"
  shows "wolfe_epochs tor bounds loss k st \<noteq> Raise e"
proof (induction k arbitrary: st)
  case 0
  show ?case by simp
next
  case (Suc k)
  show ?case using assms Suc.IH
    by (auto simp: and_then_eq_Raise Let_def split: prod.splits)
qed

lemma project_uniform_infeasible:
  assumes n: "0 < n" and le: "lo \<le> hi"
    and bad: "real n * lo > 1 \<or> (real n * hi < 1 \<and> hi \<noteq> 0)"
  shows "project (lo, hi) (replicate n (1 / real n)) = Ok (replicate n (1 / real n))"
proof -
  define c where "c = min (max (1 / real n) lo) hi"
  have rn: "0 < real n" using n by simp
  have c: "c = lo \<or> c = hi"
  proof (cases "real n * lo > 1")
    case True
    then have "1 / real n < lo" using rn by (simp add: divide_less_eq mult.commute)
    then show ?thesis using le by (simp add: c_def)
  next
    case False
    with bad have "real n * hi < 1" by simp
    then have "hi < 1 / real n" using rn by (simp add: less_divide_eq mult.commute)
    then show ?thesis using le by (simp add: c_def)
  qed
  have cnz: "c \<noteq> 0"
  proof
    assume z: "c = 0"
    show False
    proof (cases "real n * lo > 1")
      case True
      then have "1 / real n < lo" using rn by (simp add: divide_less_eq mult.commute)
      then have "c = lo" using le by (simp add: c_def)
      with z True show False by simp
    next
      case False
      with bad have h: "real n * hi < 1 \<and> hi \<noteq> 0" by simp
      then have "hi < 1 / real n" using rn by (simp add: less_divide_eq mult.commute)
      then have "c = hi" using le by (simp add: c_def)
      with z h show False by simp
    qed
  qed
  have clamped: "map (\<lambda>x. min (max x lo) hi) (replicate n (1 / real n)) = replicate n c"
    by (simp add: c_def)
  have total: "sum_list (replicate n c) = real n * c"
    by (simp add: sum_list_replicate)
  have ne: "replicate n c \<noteq> []" using n by simp
  have "map (\<lambda>x. x / (real n * c)) (replicate n c) = replicate n (1 / real n)"
    using cnz rn by simp
  then show ?thesis
    unfolding project_def Let_def fst_conv snd_conv clamped total
    using ne cnz rn by simp
qed

lemma if_neq: "(c \<Longrightarrow> a \<noteq> v) \<Longrightarrow> (\<not> c \<Longrightarrow> b \<noteq> v) \<Longrightarrow> (if c then a else b) \<noteq> v"
  by simp

lemma and_then_project_not_Raise:
  "m \<noteq> Raise e \<Longrightarrow> and_then m (project bounds) \<noteq> Raise e"
  by (cases m) (simp_all add: project_not_Raise)

lemma adam_loop_not_Raise:
  assumes "\<And>l sw. adam_step tor l sw \<noteq> Raise e"
  shows "and_then
           (for_each (\<lambda>_ (s, w). and_then (project bounds w) (\<lambda>p. adam_step tor L (s, p)))
              ixs st)
           (\<lambda>(s, w). Ok w) \<noteq> Raise e"
proof -
  have body: "(case sw of (s, w) \<Rightarrow> and_then (project bounds w) (\<lambda>p. adam_step tor L (s, p)))
                \<noteq> Raise e" for sw :: "'a \<times> vec"
    using assms by (cases sw) (simp add: and_then_eq_Raise project_not_Raise)
  have "for_each (\<lambda>_ (s, w). and_then (project bounds w) (\<lambda>p. adam_step tor L (s, p))) ixs st
          \<noteq> Raise e"
    by (rule for_each_not_Raise) (rule body)
  then show ?thesis
    by (simp add: and_then_eq_Raise split: prod.splits)
qed

lemma optimize_weights_not_Raise:
  assumes "\<And>p l sw. lbfgs_step tor p l sw \<noteq> Raise InfeasibleConstraintError"
    and "\<And>l sw. adam_step tor l sw \<noteq> Raise InfeasibleConstraintError"
  shows "optimize_weights tor n X method bounds \<noteq> Raise InfeasibleConstraintError"
proof (cases "n = 0")
  case True
  then show ?thesis by (simp add: optimize_weights_def)
next
  case False
  let ?w = "replicate n (1 / real n)"
  let ?inner = "if method = ''minimum_variance'' then
                 lbfgs_descent tor bounds (minimum_variance_loss (sample_cov n X)) ?w
               else if method = ''maximum_sharpe'' then
                 and_then
                   (for_each (\<lambda>_ (s, w). and_then (project bounds w) (\<lambda>p.
                        adam_step tor (maximum_sharpe_loss (column_mean n X) (sample_cov n X)) (s, p)))
                      [0..<200] (adam_new tor, ?w))
                   (\<lambda>(s, w). Ok w)
               else if method = ''risk_parity'' then
                 lbfgs_descent tor bounds (risk_parity_loss n (sample_cov n X)) ?w
               else Ok ?w"
  have l: "lbfgs_descent tor bounds L ?w \<noteq> Raise InfeasibleConstraintError" for L
    by (rule lbfgs_descent_not_Raise) (rule assms(1))
  have a: "and_then
             (for_each (\<lambda>_ (s, w). and_then (project bounds w) (\<lambda>p.
                  adam_step tor (maximum_sharpe_loss (column_mean n X) (sample_cov n X)) (s, p)))
                [0..<200] (adam_new tor, ?w))
             (\<lambda>(s, w). Ok w) \<noteq> Raise InfeasibleConstraintError"
    by (rule adam_loop_not_Raise) (rule assms(2))
  have inner: "?inner \<noteq> Raise InfeasibleConstraintError"
    by (intro if_neq l a) simp
  have "optimize_weights tor n X method bounds = and_then ?inner (project bounds)"
    using False by (simp add: optimize_weights_def Let_def)
  then show ?thesis using inner by (simp add: and_then_project_not_Raise)
qed

text \<open>
  Claim C5, as amended. Whatever the bounds and the number of assets,
  \<^verbatim>\<open>_optimize_weights\<close> and \<^verbatim>\<open>optimize_minimum_variance_torch\<close> raise no
  \<open>InfeasibleConstraintError\<close> (the torch steps raising none): the bounds are only ever
  clamped to. With \<open>lo \<le> hi\<close> and \<open>N\<cdot>lo > 1\<close>, or \<open>N\<cdot>hi < 1\<close> and \<open>hi \<noteq> 0\<close>, and a method name that
  selects no optimiser, \<^verbatim>\<open>_optimize_weights\<close> returns the equal weights \<open>1/N\<close>.
\<close>

theorem infeasible_bounds_not_rejected:
  assumes "\<forall>p l sw. lbfgs_step tor p l sw \<noteq> Raise InfeasibleConstraintError"
    and "\<forall>l sw. adam_step tor l sw \<noteq> Raise InfeasibleConstraintError"
    and "\<forall>p l sw. wolfe_step tor p l sw \<noteq> Raise InfeasibleConstraintError"
  shows "optimize_weights tor n X method bounds \<noteq> Raise InfeasibleConstraintError
       \<and> optimize_minimum_variance_torch tor n X bounds max_iter \<noteq> Raise InfeasibleConstraintError
       \<and> (0 < n \<and> lo \<le> hi \<and> (real n * lo > 1 \<or> (real n * hi < 1 \<and> hi \<noteq> 0))
            \<and> method \<noteq> ''minimum_variance'' \<and> method \<noteq> ''maximum_sharpe''
            \<and> method \<noteq> ''risk_parity''
          \<longrightarrow> optimize_weights tor n X method (lo, hi) = Ok (replicate n (1 / real n)))"
proof (intro conjI impI)
  show "optimize_weights tor n X method bounds \<noteq> Raise InfeasibleConstraintError"
    using assms(1,2) by (intro optimize_weights_not_Raise) blast+
  have "wolfe_epochs tor bounds L k st \<noteq> Raise InfeasibleConstraintError" for L k st
    using assms(3) by (intro wolfe_epochs_not_Raise) blast
  then show "optimize_minimum_variance_torch tor n X bounds max_iter
               \<noteq> Raise InfeasibleConstraintError"
    by (simp add: optimize_minimum_variance_torch_def and_then_project_not_Raise)
  show "optimize_weights tor n X method (lo, hi) = Ok (replicate n (1 / real n))"
    if "0 < n \<and> lo \<le> hi \<and> (real n * lo > 1 \<or> (real n * hi < 1 \<and> hi \<noteq> 0))
            \<and> method \<noteq> ''minimum_variance'' \<and> method \<noteq> ''maximum_sharpe''
            \<and> method \<noteq> ''risk_parity''"
    using that by (simp add: optimize_weights_default project_uniform_infeasible)
qed

theorem infeasible_bounds_not_rejected_witness:
  "real 2 * (6/10) > 1
   \<and> optimize_weights still_optim 2 [[0, 0], [0, 0]] ''equal_weight'' (6/10, 1)
        = Ok (replicate 2 (1 / real 2))
   \<and> optimize_weights still_optim 2 [[0, 0], [0, 0]] ''minimum_variance'' (6/10, 1)
        \<noteq> Raise InfeasibleConstraintError
   \<and> optimize_minimum_variance_torch still_optim 2 [[0, 0], [0, 0]] (6/10, 1) 1000
        \<noteq> Raise InfeasibleConstraintError"
proof -
  have a: "\<forall>p l sw. lbfgs_step still_optim p l sw \<noteq> Raise InfeasibleConstraintError"
    by (simp add: still_optim_def)
  have b: "\<forall>l sw. adam_step still_optim l sw \<noteq> Raise InfeasibleConstraintError"
    by (simp add: still_optim_def)
  have c: "\<forall>p l sw. wolfe_step still_optim p l sw \<noteq> Raise InfeasibleConstraintError"
    by (simp add: still_optim_def)
  have h: "0 < (2::nat) \<and> (6/10::real) \<le> 1
           \<and> (real 2 * (6/10) > 1 \<or> (real 2 * 1 < 1 \<and> (1::real) \<noteq> 0))
           \<and> ''equal_weight'' \<noteq> ''minimum_variance'' \<and> ''equal_weight'' \<noteq> ''maximum_sharpe''
           \<and> ''equal_weight'' \<noteq> ''risk_parity''"
    by simp
  have g: "real 2 * (6/10) > 1" by simp
  note i1 = infeasible_bounds_not_rejected [OF a b c, of 2 "[[0, 0], [0, 0]]" "''equal_weight''"
      "(6/10, 1)" 1000 "6/10" 1]
  note i2 = infeasible_bounds_not_rejected [OF a b c, of 2 "[[0, 0], [0, 0]]"
      "''minimum_variance''" "(6/10, 1)" 1000 "6/10" 1]
  from i1 h have e1: "optimize_weights still_optim 2 [[0, 0], [0, 0]] ''equal_weight'' (6/10, 1)
        = Ok (replicate 2 (1 / real 2))" by blast
  from i2 have e2: "optimize_weights still_optim 2 [[0, 0], [0, 0]] ''minimum_variance'' (6/10, 1)
        \<noteq> Raise InfeasibleConstraintError" by blast
  from i2 have e3: "optimize_minimum_variance_torch still_optim 2 [[0, 0], [0, 0]] (6/10, 1) 1000
        \<noteq> Raise InfeasibleConstraintError" by blast
  from g e1 e2 e3 show ?thesis by blast
qed

text \<open>
  The claim as stated fails: with two assets and the bounds \<open>(0.6, 1.0)\<close> the optimiser
  returns \<open>[0.5, 0.5]\<close>.
\<close>

theorem infeasible_bounds_accepted:
  "real 2 * (6/10) > 1
   \<and> optimize_weights still_optim 2 [[0, 0], [0, 0]] ''equal_weight'' (6/10, 1)
        \<noteq> Raise InfeasibleConstraintError
   \<and> optimize_weights still_optim 2 [[0, 0], [0, 0]] ''equal_weight'' (6/10, 1) = Ok [1/2, 1/2]"
  by (simp add: optimize_weights_def project_def numeral_2_eq_2)

subsection \<open>Costs with the default fee and impact coefficient\<close>

lemmas run_defs = run_backtest_def backtest_period_def rebalance_def realize_and_drift_def
  initial_state_def optimize_weights_def project_def compute_transaction_costs_def
  elementwise_def should_rebalance_def list_index_def assign_row_def tensor_max_def
  compute_performance_metrics_def max_drawdown_of_def cummax_def tensor_min_def Let_def
  eval_nat_numeral

lemma fixed_plus_cost_eq:
  "compute_transaction_costs old new V FIXED_PLUS_PROPORTIONAL rate 0 0 =
   compute_transaction_costs old new V PROPORTIONAL rate 0 0"
  by (cases "elementwise (\<lambda>x y. x - y) new old")
     (simp_all add: compute_transaction_costs_def Let_def)

lemma market_impact_cost_eq:
  assumes "0 \<le> V"
  shows "compute_transaction_costs old new V MARKET_IMPACT rate 0 0 =
         compute_transaction_costs old new V PROPORTIONAL rate 0 0"
proof (cases "elementwise (\<lambda>x y. x - y) new old")
  case (Ok d)
  have "\<not> list_ex (\<lambda>a. a < 0) (map (\<lambda>d. \<bar>d\<bar> * V) d)"
    using assms by (auto simp: list_ex_iff not_less)
  then show ?thesis using Ok by (simp add: compute_transaction_costs_def Let_def)
qed (simp_all add: compute_transaction_costs_def)

lemma rebalance_fixed_plus:
  "rebalance b tor method bounds FIXED_PLUS_PROPORTIONAL rate t window s =
     rebalance b tor method bounds PROPORTIONAL rate t window s"
  by (simp add: rebalance_def fixed_plus_cost_eq)

text \<open>
  Claim C10, as amended. At every rebalance event of a backtest the state left under
  \<open>FIXED_PLUS_PROPORTIONAL\<close> is the one left under \<open>PROPORTIONAL\<close> with the same rate, and
  so is the whole run: the loop passes no fixed fee. Under \<open>MARKET_IMPACT\<close> the event leaves
  the \<open>PROPORTIONAL\<close> state whenever the portfolio value at the event is not negative: the
  loop passes no impact coefficient.
\<close>

theorem default_fee_costs:
  "rebalance b tor method bounds FIXED_PLUS_PROPORTIONAL rate t window s =
     rebalance b tor method bounds PROPORTIONAL rate t window s
   \<and> (0 \<le> portfolio_value s \<longrightarrow>
        rebalance b tor method bounds MARKET_IMPACT rate t window s =
          rebalance b tor method bounds PROPORTIONAL rate t window s)
   \<and> run_backtest b tor method lookback freq thr FIXED_PLUS_PROPORTIONAL rate min_history bounds =
       run_backtest b tor method lookback freq thr PROPORTIONAL rate min_history bounds"
proof (intro conjI impI)
  show "rebalance b tor method bounds FIXED_PLUS_PROPORTIONAL rate t window s =
     rebalance b tor method bounds PROPORTIONAL rate t window s"
    by (rule rebalance_fixed_plus)
  show "rebalance b tor method bounds MARKET_IMPACT rate t window s =
          rebalance b tor method bounds PROPORTIONAL rate t window s"
    if "0 \<le> portfolio_value s"
    using that by (simp add: rebalance_def market_impact_cost_eq)
  have "backtest_period b tor method lookback freq thr FIXED_PLUS_PROPORTIONAL rate bounds =
        backtest_period b tor method lookback freq thr PROPORTIONAL rate bounds"
    by (intro ext) (simp add: backtest_period_def rebalance_fixed_plus Let_def cong: if_cong)
  then show "run_backtest b tor method lookback freq thr FIXED_PLUS_PROPORTIONAL rate min_history bounds =
       run_backtest b tor method lookback freq thr PROPORTIONAL rate min_history bounds"
    by (simp add: run_backtest_def)
qed

theorem default_fee_costs_witness:
  "0 \<le> portfolio_value ((initial_state b1 2)\<lparr>current_weights := [2/3, 1/3], portfolio_value := 1500\<rparr>)
   \<and> rebalance b1 still_optim ''equal_weight'' (0, 1) MARKET_IMPACT (1/1000) 3 [[0, 0], [1, 0]]
         ((initial_state b1 2)\<lparr>current_weights := [2/3, 1/3], portfolio_value := 1500\<rparr>)
       = rebalance b1 still_optim ''equal_weight'' (0, 1) PROPORTIONAL (1/1000) 3 [[0, 0], [1, 0]]
         ((initial_state b1 2)\<lparr>current_weights := [2/3, 1/3], portfolio_value := 1500\<rparr>)
   \<and> rebalance b1 still_optim ''equal_weight'' (0, 1) FIXED_PLUS_PROPORTIONAL (1/1000) 3
         [[0, 0], [1, 0]]
         ((initial_state b1 2)\<lparr>current_weights := [2/3, 1/3], portfolio_value := 1500\<rparr>)
       = rebalance b1 still_optim ''equal_weight'' (0, 1) PROPORTIONAL (1/1000) 3 [[0, 0], [1, 0]]
         ((initial_state b1 2)\<lparr>current_weights := [2/3, 1/3], portfolio_value := 1500\<rparr>)"
proof -
  have v: "0 \<le> portfolio_value ((initial_state b1 2)\<lparr>current_weights := [2/3, 1/3], portfolio_value := 1500\<rparr>)"
    by simp
  from default_fee_costs [of b1 still_optim "''equal_weight''" "(0, 1)" "1/1000" 3 "[[0, 0], [1, 0]]"
      "(initial_state b1 2)\<lparr>current_weights := [2/3, 1/3], portfolio_value := 1500\<rparr>"] v
  show ?thesis by blast
qed

text \<open>
  The claim as stated fails under \<open>MARKET_IMPACT\<close> once the portfolio value is negative:
  the square roots of the trade amounts are NaN, and \<open>0.0\<close> times NaN is NaN. In the second
  backtest the rebalance of period 3 starts from the weights \<open>[1/3, 2/3]\<close> and the value
  \<open>-1500\<close>.
\<close>

theorem market_impact_negative_value:
  "compute_transaction_costs [1/3, 2/3] [1/2, 1/2] (- 1500) MARKET_IMPACT (1/1000) 0 0 = NonFinite
   \<and> compute_transaction_costs [1/3, 2/3] [1/2, 1/2] (- 1500) PROPORTIONAL (1/1000) 0 0
       = Ok (- (1/2))
   \<and> run_backtest b2 still_optim ''equal_weight'' 2 DAILY (1/20) MARKET_IMPACT (1/1000) 2 (0, 1)
       = NonFinite
   \<and> (\<exists>r. run_backtest b2 still_optim ''equal_weight'' 2 DAILY (1/20) PROPORTIONAL (1/1000) 2 (0, 1)
           = Ok r \<and> transaction_costs r = [0, 0, 0, - (1/2)])"
proof (intro conjI)
  show "compute_transaction_costs [1/3, 2/3] [1/2, 1/2] (- 1500) MARKET_IMPACT (1/1000) 0 0 = NonFinite"
    by (simp add: compute_transaction_costs_def elementwise_def)
  show "compute_transaction_costs [1/3, 2/3] [1/2, 1/2] (- 1500) PROPORTIONAL (1/1000) 0 0
       = Ok (- (1/2))"
    by (simp add: compute_transaction_costs_def elementwise_def)
  show "run_backtest b2 still_optim ''equal_weight'' 2 DAILY (1/20) MARKET_IMPACT (1/1000) 2 (0, 1)
       = NonFinite"
    by (simp add: run_defs b2_def)
  show "\<exists>r. run_backtest b2 still_optim ''equal_weight'' 2 DAILY (1/20) PROPORTIONAL (1/1000) 2 (0, 1)
           = Ok r \<and> transaction_costs r = [0, 0, 0, - (1/2)]"
    by (simp add: run_defs b2_def)
qed

subsection \<open>The threshold policy inside the backtest\<close>

lemma for_each_invariant:
  assumes "\<And>i s s'. i \<in> set ixs \<Longrightarrow> body i s = Ok s' \<Longrightarrow> P s \<Longrightarrow> P s'"
    and "P s" and "for_each body ixs s = Ok s'"
  shows "P s'"
  using assms(2,3,1)
proof (induction ixs arbitrary: s)
  case Nil
  then show ?case by simp
next
  case (Cons i ixs)
  from Cons.prems(2) obtain s1 where s1: "body i s = Ok s1" and rest: "for_each body ixs s1 = Ok s'"
    by (auto simp: and_then_eq_Ok)
  have p1: "P s1" using Cons.prems(3) [of i s s1] s1 Cons.prems(1) by simp
  show ?case
  proof (rule Cons.IH [OF p1 rest])
    fix j a a'
    assume "j \<in> set ixs" and "body j a = Ok a'" and "P a"
    then show "P a'" using Cons.prems(3) [of j a a'] by simp
  qed
qed

lemma no_drift_from_itself:
  "map abs (map2 (\<lambda>c t. c - t) w w) = replicate (length w) (0::real)"
  by (induction w) simp_all

lemma max_zero_funpow: "(max (0::real) ^^ k) 0 = 0"
  by (induction k) simp_all

lemma should_rebalance_threshold_self:
  assumes "0 \<le> thr"
  shows "should_rebalance w w THRESHOLD i j thr = (if w = [] then Raise RuntimeError else Ok False)"
proof (cases w)
  case Nil
  then show ?thesis by (simp add: should_rebalance_def elementwise_def tensor_max_def)
next
  case (Cons x xs)
  have "tensor_max (map abs (map2 (\<lambda>c t. c - t) w w)) = Ok 0"
    unfolding no_drift_from_itself using Cons by (simp add: tensor_max_def max_zero_funpow)
  then show ?thesis
    using Cons assms by (simp add: should_rebalance_def elementwise_def)
qed

lemma threshold_period:
  assumes "0 \<le> thr"
  shows "backtest_period b tor method lookback THRESHOLD thr cm rate bounds t s =
         (if current_weights s = [] then Raise RuntimeError else realize_and_drift b t s)"
  using assms by (simp add: backtest_period_def should_rebalance_threshold_self Let_def)

lemma realize_and_drift_keeps:
  assumes "realize_and_drift b t s = Ok s'"
  shows "rebalance_dates s' = rebalance_dates s \<and> turnover s' = turnover s
       \<and> transaction_costs s' = transaction_costs s"
  using assms
  by (auto simp: realize_and_drift_def and_then_eq_Ok Let_def split: if_splits)

text \<open>
  Claim C1 (the code departs from it). The loop asks the policy about the current weights
  against themselves, before any optimisation. With a threshold that is not negative, a run
  under \<open>THRESHOLD\<close> therefore never rebalances, whatever the drift from the optimiser's
  candidate: no rebalance date, no turnover, no transaction cost.
\<close>

theorem threshold_never_rebalances:
  assumes "0 \<le> thr"
    and "run_backtest b tor method lookback THRESHOLD thr cm rate min_history bounds = Ok r"
  shows "rebalance_dates r = []
       \<and> turnover r = replicate (length (bt_returns b)) 0
       \<and> transaction_costs r = replicate (length (bt_returns b)) 0"
proof -
  let ?P = "\<lambda>s. rebalance_dates s = [] \<and> turnover s = replicate (length (bt_returns b)) 0
       \<and> transaction_costs s = replicate (length (bt_returns b)) 0"
  from assms(2) obtain s where
    loop: "for_each (backtest_period b tor method lookback THRESHOLD thr cm rate bounds)
             [min_history..<length (bt_returns b)] (initial_state b min_history) = Ok s"
    and r: "rebalance_dates r = rebalance_dates s" "turnover r = turnover s"
      "transaction_costs r = transaction_costs s"
    by (auto simp: run_backtest_def and_then_eq_Ok split: if_splits)
  have step: "?P s2" if "backtest_period b tor method lookback THRESHOLD thr cm rate bounds t s1 = Ok s2"
    and "?P s1" for t s1 s2
    using that realize_and_drift_keeps [of b t s1 s2]
    by (simp add: threshold_period [OF assms(1)] split: if_splits)
  have init: "?P (initial_state b min_history)"
    by (simp add: initial_state_def Let_def)
  have "?P s"
    by (rule for_each_invariant [where P = ?P, OF _ init loop]) (rule step)
  then show ?thesis using r by simp
qed

text \<open>
  In the first backtest the weights after period 2 are \<open>[2/3, 1/3]\<close>, the optimiser's
  candidate for period 3 is \<open>[1/2, 1/2]\<close>, and the policy asked about these two answers
  yes at the threshold \<open>0.05\<close>; the run has no rebalance date.
\<close>

theorem threshold_never_rebalances_witness:
  "(0::real) \<le> 1/20
   \<and> (\<exists>r. run_backtest b1 still_optim ''equal_weight'' 2 THRESHOLD (1/20) PROPORTIONAL (1/1000) 2 (0, 1)
           = Ok r \<and> rebalance_dates r = [] \<and> weights_history r ! 2 = [2/3, 1/3])
   \<and> optimize_weights still_optim 2 (take 2 (drop 1 (bt_returns b1))) ''equal_weight'' (0, 1)
       = Ok [1/2, 1/2]
   \<and> should_rebalance [2/3, 1/3] [1/2, 1/2] THRESHOLD 3 2 (1/20) = Ok True"
proof -
  have z: "(0::real) \<le> 1/20" by simp
  obtain r where
    run: "run_backtest b1 still_optim ''equal_weight'' 2 THRESHOLD (1/20) PROPORTIONAL (1/1000) 2 (0, 1)
           = Ok r" and w: "weights_history r ! 2 = [2/3, 1/3]"
    by (simp add: run_defs b1_def)
  have d: "rebalance_dates r = []"
    using threshold_never_rebalances [OF z run] by simp
  have o: "optimize_weights still_optim 2 (take 2 (drop 1 (bt_returns b1))) ''equal_weight'' (0, 1)
       = Ok [1/2, 1/2]"
    by (simp add: optimize_weights_def project_def b1_def eval_nat_numeral)
  have sr: "should_rebalance [2/3, 1/3] [1/2, 1/2] THRESHOLD 3 2 (1/20) = Ok True"
    by (simp add: should_rebalance_def elementwise_def tensor_max_def)
  from z run w d o sr show ?thesis by blast
qed

subsection \<open>The periods before the loop starts\<close>

lemma realize_and_drift_values:
  assumes "realize_and_drift b t s = Ok s'"
  shows "\<exists>v. portfolio_values s' = (portfolio_values s)[t := v]"
  using assms
  by (auto simp: realize_and_drift_def and_then_eq_Ok Let_def split: if_splits)

lemma rebalance_values:
  assumes "rebalance b tor method bounds cm rate t window s = Ok s'"
  shows "portfolio_values s' = portfolio_values s"
  using assms by (auto simp: rebalance_def and_then_eq_Ok)

lemma backtest_period_values:
  assumes "backtest_period b tor method lookback freq thr cm rate bounds t s = Ok s'"
  shows "\<exists>v. portfolio_values s' = (portfolio_values s)[t := v]"
proof -
  from assms obtain due s1 where
    s1: "(if due then rebalance b tor method bounds cm rate t
            (take (t - (t - lookback)) (drop (t - lookback) (bt_returns b))) s else Ok s) = Ok s1"
    and d: "realize_and_drift b t s1 = Ok s'"
    by (auto simp: backtest_period_def and_then_eq_Ok Let_def)
  have "portfolio_values s1 = portfolio_values s"
  proof (cases due)
    case True
    with s1 show ?thesis by (simp add: rebalance_values)
  next
    case False
    with s1 show ?thesis by simp
  qed
  with realize_and_drift_values [OF d] show ?thesis by simp
qed

lemma loop_keeps_history:
  assumes "for_each (backtest_period b tor method lookback freq thr cm rate bounds)
             [min_history..<T] s0 = Ok s"
  shows "length (portfolio_values s) = length (portfolio_values s0)
       \<and> (\<forall>i<min_history. portfolio_values s ! i = portfolio_values s0 ! i)"
proof -
  let ?P = "\<lambda>s. length (portfolio_values s) = length (portfolio_values s0)
       \<and> (\<forall>i<min_history. portfolio_values s ! i = portfolio_values s0 ! i)"
  have step: "?P s2"
    if "t \<in> set [min_history..<T]"
      and "backtest_period b tor method lookback freq thr cm rate bounds t s1 = Ok s2"
      and "?P s1" for t s1 s2
  proof -
    from backtest_period_values [OF that(2)] obtain v where
      v: "portfolio_values s2 = (portfolio_values s1)[t := v]" by blast
    have "min_history \<le> t" using that(1) by simp
    then show ?thesis using v that(3) by simp
  qed
  show ?thesis
  proof (rule for_each_invariant [where P = ?P, OF _ _ assms])
    show "?P s0" by simp
    show "?P s2"
      if "t \<in> set [min_history..<T]"
        and "backtest_period b tor method lookback freq thr cm rate bounds t s1 = Ok s2"
        and "?P s1" for t s1 s2
      using that by (rule step)
  qed
qed

lemma running_max_from_first:
  assumes "t < length V"
  shows "V ! 0 \<le> spec_running_max V t"
proof -
  have "V ! 0 = take (Suc t) V ! 0" by simp
  also have "\<dots> \<in> set (take (Suc t) V)" using assms by (intro nth_mem) simp
  finally show ?thesis unfolding spec_running_max_def by (intro Max_ge) simp_all
qed

lemma running_max_second:
  assumes "V = a # b # rest"
  shows "spec_running_max V (Suc 0) = max a b"
  unfolding spec_running_max_def assms by simp

lemma max_drawdown_of_positive_start:
  assumes ne: "V \<noteq> []" and c: "0 < V ! 0"
  shows "max_drawdown_of V = Ok (spec_max_drawdown V)"
proof -
  let ?f = "\<lambda>t. (V ! t - spec_running_max V t) / spec_running_max V t"
  let ?dd = "map2 (\<lambda>v m. (v - m) / m) V (cummax V)"
  have nz: "\<not> list_ex (\<lambda>m. m = 0) (cummax V)"
  proof
    assume "list_ex (\<lambda>m. m = 0) (cummax V)"
    then obtain t where t: "t < length V" and "cummax V ! t = 0"
      by (auto simp: list_ex_iff in_set_conv_nth)
    then have "spec_running_max V t = 0" by (simp add: cummax_nth)
    with running_max_from_first [OF t] c show False by linarith
  qed
  have "set ?dd = (\<lambda>t. (V ! t - cummax V ! t) / cummax V ! t) ` {..<length V}"
    by (rule set_map2_nth) simp
  also have "\<dots> = ?f ` {..<length V}"
    by (intro image_cong) (simp_all add: cummax_nth)
  finally have "Min (set ?dd) = spec_max_drawdown V"
    by (simp add: spec_max_drawdown_def)
  moreover have "?dd \<noteq> []" using ne by (cases V) (simp_all add: cummax_def)
  ultimately show ?thesis
    using ne nz by (simp add: max_drawdown_of_def Let_def tensor_min_Min)
qed

lemma drawdown_of_idle_history:
  assumes V: "V = a # b # rest" and c: "0 < a" and z: "b = 0" and nn: "\<forall>v\<in>set V. 0 \<le> v"
  shows "max_drawdown_of V = Ok (- 1)"
proof -
  let ?f = "\<lambda>t. (V ! t - spec_running_max V t) / spec_running_max V t"
  have v0: "V ! 0 = a" using V by simp
  have pos: "0 < spec_running_max V t" if "t < length V" for t
    using running_max_from_first [OF that] c v0 by linarith
  have lower: "- 1 \<le> ?f t" if "t < length V" for t
  proof -
    have "0 \<le> V ! t" using nn that by simp
    then have "- 1 * spec_running_max V t \<le> V ! t - spec_running_max V t" by simp
    then show ?thesis using pos [OF that] by (simp only: pos_le_divide_eq)
  qed
  have m1: "spec_running_max V (Suc 0) = a"
    using running_max_second [OF V] z c by simp
  have "V ! Suc 0 = 0" using V z by simp
  then have "?f (Suc 0) = (0 - a) / a" using m1 by simp
  then have at1: "?f (Suc 0) = - 1" using c by simp
  have one: "Suc 0 \<in> {..<length V}" using V by simp
  have "Min (?f ` {..<length V}) = - 1"
  proof (rule Min_eqI)
    show "finite (?f ` {..<length V})" by simp
    show "- 1 \<le> y" if "y \<in> ?f ` {..<length V}" for y
    proof -
      from that obtain t where "t < length V" and "y = ?f t" by auto
      then show ?thesis using lower by simp
    qed
    show "- 1 \<in> ?f ` {..<length V}"
      using at1 one by (rule image_eqI [OF sym])
  qed
  then have "spec_max_drawdown V = - 1" by (simp only: spec_max_drawdown_def)
  moreover have "max_drawdown_of V = Ok (spec_max_drawdown V)"
    using V c by (intro max_drawdown_of_positive_start) simp_all
  ultimately show ?thesis by simp
qed

text \<open>
  Claim C9. For every backtest run that returns, with \<open>min_history \<ge> 2\<close>, a positive
  starting capital and portfolio values that are never negative: the recorded value at index
  \<open>0\<close> is the capital, the recorded values at the indices \<open>1\<close> up to \<open>min_history - 1\<close> are
  still \<open>0\<close>, and the reported maximum drawdown is \<open>-1\<close>.
\<close>

theorem idle_history_drawdown:
  assumes run: "run_backtest b tor method lookback freq thr cm rate min_history bounds = Ok r"
    and mh: "2 \<le> min_history" and cap: "0 < bt_initial_capital b"
    and nn: "\<forall>v\<in>set (portfolio_values r). 0 \<le> v"
  shows "portfolio_values r ! 0 = bt_initial_capital b
       \<and> (\<forall>i. 1 \<le> i \<and> i < min_history \<and> i < length (bt_returns b) \<longrightarrow> portfolio_values r ! i = 0)
       \<and> max_drawdown (summary r) = Some (- 1)"
proof -
  let ?T = "length (bt_returns b)"
  let ?s0 = "initial_state b min_history"
  from run have T0: "bt_returns b \<noteq> []" by (auto simp: run_backtest_def split: if_splits)
  from run T0 obtain s m where
    loop: "for_each (backtest_period b tor method lookback freq thr cm rate bounds)
             [min_history..<?T] ?s0 = Ok s"
    and met: "compute_performance_metrics (bt_initial_capital b) ?T (portfolio_values s)
                (portfolio_returns s) (transaction_costs s) = Ok m"
    and rv: "portfolio_values r = portfolio_values s" and rs: "summary r = m"
    by (auto simp: run_backtest_def and_then_eq_Ok)
  have v0: "portfolio_values ?s0 = (replicate ?T 0)[0 := bt_initial_capital b]"
    by (simp add: initial_state_def Let_def)
  from loop_keeps_history [OF loop] have
    len: "length (portfolio_values s) = ?T"
    and keep: "\<And>i. i < min_history \<Longrightarrow> portfolio_values s ! i = portfolio_values ?s0 ! i"
    by (simp_all add: v0)
  have T0': "0 < ?T" using T0 by simp
  have first: "portfolio_values s ! 0 = bt_initial_capital b"
    using keep [of 0] mh T0' by (simp add: v0)
  have idle: "portfolio_values s ! i = 0" if "1 \<le> i" "i < min_history" "i < ?T" for i
    using keep [OF that(2)] that by (simp add: v0)
  have T2: "2 \<le> ?T"
  proof (rule ccontr)
    assume "\<not> 2 \<le> ?T"
    with T0' have T1: "?T = 1" by arith
    then have "[min_history..<?T] = []" using mh by simp
    with loop have s: "s = ?s0" by simp
    have "portfolio_values ?s0 = [bt_initial_capital b]" "portfolio_returns ?s0 = [0]"
      using T1 by (simp_all add: initial_state_def Let_def)
    then have "compute_performance_metrics (bt_initial_capital b) ?T (portfolio_values s)
                (portfolio_returns s) (transaction_costs s) = Raise ZeroDivisionError"
      using T1 unfolding s by (simp add: compute_performance_metrics_def)
    with met show False by simp
  qed
  obtain a c rest where V: "portfolio_values s = a # c # rest"
  proof -
    from len T2 have l: "2 \<le> length (portfolio_values s)" by simp
    then obtain a xs where x: "portfolio_values s = a # xs" by (cases "portfolio_values s") auto
    with l obtain c rest where "xs = c # rest" by (cases xs) auto
    with x that show ?thesis by simp
  qed
  have a: "a = bt_initial_capital b" using first V by simp
  have "portfolio_values s ! 1 = 0" using idle [of 1] mh T2 by simp
  then have c: "c = 0" using V by simp
  have "max_drawdown_of (portfolio_values s) = Ok (- 1)"
  proof (rule drawdown_of_idle_history [OF V _ c])
    show "0 < a" using a cap by simp
    show "\<forall>v\<in>set (portfolio_values s). 0 \<le> v" using nn rv by simp
  qed
  moreover have "max_drawdown m =
      (case max_drawdown_of (portfolio_values s) of Ok d \<Rightarrow> Some d | _ \<Rightarrow> None)"
    using met by (simp add: compute_performance_metrics_def Let_def split: if_splits) auto
  ultimately have "max_drawdown m = Some (- 1)" by simp
  then show ?thesis using first idle rv rs by simp
qed

theorem idle_history_drawdown_witness:
  "(2::nat) \<le> 2 \<and> 0 < bt_initial_capital b1
   \<and> (\<exists>r. run_backtest b1 still_optim ''equal_weight'' 2 DAILY (1/20) PROPORTIONAL (1/1000) 2 (0, 1)
           = Ok r
         \<and> portfolio_values r = [1000, 0, 1500, 8997/8]
         \<and> max_drawdown (summary r) = Some (- 1))"
proof -
  have mh: "(2::nat) \<le> 2" by simp
  have cap: "0 < bt_initial_capital b1" by (simp add: b1_def)
  have "\<exists>r. run_backtest b1 still_optim ''equal_weight'' 2 DAILY (1/20) PROPORTIONAL (1/1000) 2 (0, 1)
           = Ok r \<and> portfolio_values r = [1000, 0, 1500, 8997/8]"
    by (simp add: run_defs b1_def)
  then obtain r where
    run: "run_backtest b1 still_optim ''equal_weight'' 2 DAILY (1/20) PROPORTIONAL (1/1000) 2 (0, 1)
           = Ok r" and v: "portfolio_values r = [1000, 0, 1500, 8997/8]"
    by blast
  have nn: "\<forall>v\<in>set (portfolio_values r). 0 \<le> v" unfolding v by simp
  have "max_drawdown (summary r) = Some (- 1)"
    using idle_history_drawdown [OF run mh cap nn] by blast
  with mh cap run v show ?thesis by blast
qed

subsection \<open>The turnover reference in the backward loop\<close>

lemma for_each_append:
  "for_each body (xs @ ys) s = and_then (for_each body xs s) (for_each body ys)"
proof (induction xs arbitrary: s)
  case Nil
  show ?case by simp
next
  case (Cons x xs)
  show ?case by (cases "body x s") (simp_all add: Cons.IH)
qed

lemma for_each_still:
  assumes "\<And>i s. body i s = Ok s"
  shows "for_each body ixs s = Ok s"
  by (induction ixs) (simp_all add: assms)

lemma lbfgs_descent_still: "lbfgs_descent still_optim bounds loss w0 = Ok w0"
proof -
  have "for_each (\<lambda>_. lbfgs_step still_optim (project bounds) loss) [0..<50]
          (lbfgs_new still_optim, w0) = Ok (lbfgs_new still_optim, w0)"
    by (rule for_each_still) (simp add: still_optim_def)
  then show ?thesis by (simp add: lbfgs_descent_def)
qed

lemma assign_row_shape:
  assumes "assign_row n M t v = Ok M'"
  shows "\<exists>row. M' = M[t := row]"
  using assms by (auto simp: assign_row_def split: if_splits)

lemma solve_period_shape:
  assumes "solve_period tor mp initial_weights bounds t plan = Ok plan'"
  shows "\<exists>row. plan' = plan[t := row]"
  using assms
  by (auto simp: solve_period_def and_then_eq_Ok dest: assign_row_shape split: if_splits)

lemma backward_periods_split:
  assumes "t < H"
  shows "rev [0..<H] = rev [Suc t..<H] @ t # rev [0..<t]"
proof -
  have "[0..<t + (H - t)] = [0..<t] @ [t..<t + (H - t)]"
    by (rule upt_add_eq_append) simp
  moreover have "t + (H - t) = H" using assms by simp
  moreover have "[t..<H] = t # [Suc t..<H]" using assms by (rule upt_conv_Cons)
  ultimately have "[0..<H] = [0..<t] @ t # [Suc t..<H]" by simp
  then show ?thesis by simp
qed

lemma solve_still:
  "solve_single_period still_optim mp w bounds = project bounds w"
  "solve_with_continuation still_optim mp w nxt bounds = project bounds w"
  by (simp_all add: solve_single_period_def solve_with_continuation_def lbfgs_descent_still)

text \<open>
  Claim C2 (the code departs from it). The loop runs from the last period down to the
  first, so when a period \<open>t\<close> with \<open>0 < t < H - 1\<close> is solved the row \<open>t - 1\<close> of the table
  has not been written: the reference handed to \<^verbatim>\<open>_solve_with_continuation\<close> is the
  zero vector the table was created with, not the optimal weights of period \<open>t - 1\<close>, which
  are computed later. Here \<open>plan\<close> is the table once the periods after \<open>t\<close> are solved.
\<close>

theorem reference_is_unwritten_row:
  assumes "0 < t" and "t < n_periods mp - 1"
    and "backward_induction tor mp initial_weights bounds (rev [Suc t..<n_periods mp]) = Ok plan"
  shows "continuation_reference initial_weights plan t = replicate (mp_N mp) 0
       \<and> backward_induction tor mp initial_weights bounds (rev [0..<n_periods mp]) =
           and_then (solve_period tor mp initial_weights bounds t plan)
             (for_each (solve_period tor mp initial_weights bounds) (rev [0..<t]))
       \<and> solve_period tor mp initial_weights bounds t plan =
           and_then (solve_with_continuation tor mp (replicate (mp_N mp) 0) (plan ! (t + 1)) bounds)
             (assign_row (mp_N mp) plan t)"
proof -
  let ?H = "n_periods mp"
  let ?P = "\<lambda>M. length M = ?H \<and> (\<forall>i\<le>t. M ! i = replicate (mp_N mp) 0)"
  have tH: "t < ?H" using assms(2) by simp
  have "?P plan"
  proof (rule for_each_invariant [where P = ?P, OF _ _ assms(3) [unfolded backward_induction_def]])
    show "?P (replicate ?H (replicate (mp_N mp) 0))" using tH by simp
    show "?P M'"
      if "k \<in> set (rev [Suc t..<?H])"
        and "solve_period tor mp initial_weights bounds k M = Ok M'" and "?P M" for k M M'
    proof -
      from solve_period_shape [OF that(2)] obtain row where "M' = M[k := row]" by blast
      moreover have "t < k" using that(1) by simp
      ultimately show ?thesis using that(3) by simp
    qed
  qed
  then have "plan ! (t - 1) = replicate (mp_N mp) 0" by simp
  then have ref: "continuation_reference initial_weights plan t = replicate (mp_N mp) 0"
    using assms(1) by (simp add: continuation_reference_def)
  have "backward_induction tor mp initial_weights bounds (rev [0..<?H]) =
          and_then (backward_induction tor mp initial_weights bounds (rev [Suc t..<?H]))
            (for_each (solve_period tor mp initial_weights bounds) (t # rev [0..<t]))"
    unfolding backward_induction_def backward_periods_split [OF tH] by (rule for_each_append)
  then have whole: "backward_induction tor mp initial_weights bounds (rev [0..<?H]) =
           and_then (solve_period tor mp initial_weights bounds t plan)
             (for_each (solve_period tor mp initial_weights bounds) (rev [0..<t]))"
    by (simp add: assms(3))
  have "t \<noteq> ?H - 1" using assms(2) by simp
  then have "solve_period tor mp initial_weights bounds t plan =
           and_then (solve_with_continuation tor mp (replicate (mp_N mp) 0) (plan ! (t + 1)) bounds)
             (assign_row (mp_N mp) plan t)"
    by (simp add: solve_period_def ref)
  with ref whole show ?thesis by simp
qed

text \<open>
  With three periods, the starting weights \<open>[0.7, 0.3]\<close> and the bounds \<open>(0.1, 1)\<close>: period
  1 is solved against \<open>[0, 0]\<close>, while the weights that period 0 ends with are
  \<open>[0.7, 0.3]\<close>.
\<close>

theorem reference_is_unwritten_row_witness:
  "(0::nat) < 1 \<and> 1 < n_periods mp1 - 1
   \<and> backward_induction still_optim mp1 [7/10, 3/10] (1/10, 1) (rev [Suc 1..<n_periods mp1])
       = Ok [[0, 0], [0, 0], [7/10, 3/10]]
   \<and> continuation_reference [7/10, 3/10] [[0, 0], [0, 0], [7/10, 3/10]] 1 = [0, 0]
   \<and> backward_induction still_optim mp1 [7/10, 3/10] (1/10, 1) (rev [0..<n_periods mp1])
       = Ok [[7/10, 3/10], [1/2, 1/2], [7/10, 3/10]]"
proof -
  have t0: "(0::nat) < 1" by simp
  have t1: "1 < n_periods mp1 - 1" by (simp add: mp1_def)
  have pre: "backward_induction still_optim mp1 [7/10, 3/10] (1/10, 1) (rev [Suc 1..<n_periods mp1])
       = Ok [[0, 0], [0, 0], [7/10, 3/10]]"
    by (simp add: backward_induction_def solve_period_def solve_still project_def assign_row_def
        mp1_def eval_nat_numeral)
  note inst = reference_is_unwritten_row [OF t0 t1 pre]
  have r: "continuation_reference [7/10, 3/10] [[0, 0], [0, 0], [7/10, 3/10]] 1 = [0, 0]"
    using inst by (simp add: mp1_def eval_nat_numeral)
  have "backward_induction still_optim mp1 [7/10, 3/10] (1/10, 1) (rev [0..<n_periods mp1]) =
           and_then (solve_period still_optim mp1 [7/10, 3/10] (1/10, 1) 1
                       [[0, 0], [0, 0], [7/10, 3/10]])
             (for_each (solve_period still_optim mp1 [7/10, 3/10] (1/10, 1)) (rev [0..<1]))"
    using inst by blast
  also have "\<dots> = Ok [[7/10, 3/10], [1/2, 1/2], [7/10, 3/10]]"
    by (simp add: solve_period_def solve_still project_def assign_row_def
        continuation_reference_def mp1_def eval_nat_numeral)
  finally show ?thesis using t0 t1 pre r by blast
qed

end
